theory Spec2Isabelle
  imports Main
begin

section \<open>Strings and numbers as the script formats them\<close>

text \<open>
  Byte strings and text are both \<open>string\<close>. \<open>CRLF\<close> is the line end of an HTTP header
  line, \<open>LF\<close> the newline of Python's \<^verbatim>\<open>"\n"\<close>.
\<close>

definition CRLF :: string where
  "CRLF = [CHR 0x0D, CHR 0x0A]"

definition LF :: string where
  "LF = [CHR 0x0A]"

text \<open>\<^verbatim>\<open>str(n)\<close> for an integer, as the f-strings and \<^verbatim>\<open>%d\<close> print it.\<close>

definition digit_char :: "nat \<Rightarrow> char" where
  "digit_char d = ''0123456789'' ! d"

function str_nat :: "nat \<Rightarrow> string" where
  "str_nat n = (if n < 10 then [digit_char n] else str_nat (n div 10) @ [digit_char (n mod 10)])"
  by pat_completeness auto
termination
  by (relation "measure (\<lambda>n. n)") auto

declare str_nat.simps [simp del]

definition str_int :: "int \<Rightarrow> string" where
  "str_int i = (if i < 0 then CHR ''-'' # str_nat (nat (- i)) else str_nat (nat i))"

text \<open>\<^verbatim>\<open>s.startswith(p)\<close>, \<^verbatim>\<open>s.endswith(p)\<close> and \<^verbatim>\<open>s.lower()\<close> (ASCII letters).\<close>

definition startswith :: "string \<Rightarrow> string \<Rightarrow> bool" where
  "startswith s p = (take (length p) s = p)"

definition endswith :: "string \<Rightarrow> string \<Rightarrow> bool" where
  "endswith s p = (length p \<le> length s \<and> drop (length s - length p) s = p)"

definition lower_char :: "char \<Rightarrow> char" where
  "lower_char c =
     (case map_of (zip ''ABCDEFGHIJKLMNOPQRSTUVWXYZ'' ''abcdefghijklmnopqrstuvwxyz'') c of
        Some d \<Rightarrow> d
      | None \<Rightarrow> c)"

definition lower :: "string \<Rightarrow> string" where
  "lower s = map lower_char s"


text \<open>
  \<^verbatim>\<open>s.split()\<close>: the words between runs of white space, for text decoded as
  \<^verbatim>\<open>iso-8859-1\<close>; \<^verbatim>\<open>s.rstrip('\r\n')\<close>.
\<close>

definition is_space :: "char \<Rightarrow> bool" where
  "is_space c \<longleftrightarrow>
     c \<in> set [CHR 0x09, CHR 0x0A, CHR 0x0B, CHR 0x0C, CHR 0x0D, CHR 0x1C, CHR 0x1D, CHR 0x1E,
              CHR 0x1F, CHR 0x20, CHR 0x85, CHR 0xA0]"

fun words_from :: "string \<Rightarrow> string \<Rightarrow> string list" where
  "words_from w [] = (if w = [] then [] else [w])"
| "words_from w (c # cs) =
     (if is_space c then (if w = [] then words_from [] cs else w # words_from [] cs)
      else words_from (w @ [c]) cs)"

definition py_split :: "string \<Rightarrow> string list" where
  "py_split s = words_from [] s"

definition rstrip_crlf :: "string \<Rightarrow> string" where
  "rstrip_crlf s = rev (dropWhile (\<lambda>c. c = CHR 0x0D \<or> c = CHR 0x0A) (rev s))"

text \<open>
  \<^verbatim>\<open>s.isdigit()\<close> for such text (the ten digits and the superscripts 1, 2, 3), and
  \<^verbatim>\<open>int(s)\<close> for a string that passed it: \<open>None\<close> is \<^verbatim>\<open>ValueError\<close>.
\<close>

definition is_ascii_digit :: "char \<Rightarrow> bool" where
  "is_ascii_digit c \<longleftrightarrow> c \<in> set ''0123456789''"

definition py_isdigit :: "string \<Rightarrow> bool" where
  "py_isdigit s \<longleftrightarrow>
     s \<noteq> [] \<and> list_all (\<lambda>c. is_ascii_digit c \<or> c \<in> set [CHR 0xB2, CHR 0xB3, CHR 0xB9]) s"

definition digit_value :: "char \<Rightarrow> nat" where
  "digit_value c = (of_char c :: nat) - 48"

definition py_int :: "string \<Rightarrow> nat option" where
  "py_int s =
     (if s \<noteq> [] \<and> list_all is_ascii_digit s
      then Some (foldl (\<lambda>n c. 10 * n + digit_value c) 0 s)
      else None)"

text \<open>\<^verbatim>\<open>a >= b\<close> on strings: by code points, a proper prefix being smaller.\<close>

fun str_le :: "string \<Rightarrow> string \<Rightarrow> bool" where
  "str_le [] ys = True"
| "str_le (x # xs) [] = False"
| "str_le (x # xs) (y # ys) = (if x = y then str_le xs ys else (of_char x :: nat) < of_char y)"

definition str_ge :: "string \<Rightarrow> string \<Rightarrow> bool" where
  "str_ge a b = str_le b a"


section \<open>Path names: \<^verbatim>\<open>os.path\<close> on POSIX\<close>

text \<open>\<^verbatim>\<open>s.split(c)\<close> and \<^verbatim>\<open>c.join(words)\<close> for a one-character separator.\<close>

fun split_on :: "char \<Rightarrow> string \<Rightarrow> string list" where
  "split_on c [] = [] # []"
| "split_on c (x # xs) =
     (if x = c then [] # split_on c xs
      else (case split_on c xs of
              w # ws \<Rightarrow> (x # w) # ws
            | [] \<Rightarrow> [x] # []))"

fun join_with :: "char \<Rightarrow> string list \<Rightarrow> string" where
  "join_with c [] = []"
| "join_with c [w] = w"
| "join_with c (w # ws) = w @ c # join_with c ws"

definition isabs :: "string \<Rightarrow> bool" where
  "isabs p = startswith p ''/''"

text \<open>
  \<^verbatim>\<open>normpath\<close>: the loop over the components keeps \<^verbatim>\<open>new_comps\<close> in the order it is
  built; \<open>ini\<close> is \<^verbatim>\<open>initial_slashes\<close> (0, 1 or 2).
\<close>

definition initial_slashes :: "string \<Rightarrow> nat" where
  "initial_slashes p =
     (if \<not> startswith p ''/'' then 0
      else if startswith p ''//'' \<and> \<not> startswith p ''///'' then 2
      else 1)"

fun norm_comps :: "nat \<Rightarrow> string list \<Rightarrow> string list \<Rightarrow> string list" where
  "norm_comps ini new_comps [] = new_comps"
| "norm_comps ini new_comps (part # comps) =
     (if part = [] \<or> part = ''.'' then norm_comps ini new_comps comps
      else if part \<noteq> ''..'' \<or> (ini = 0 \<and> new_comps = []) \<or>
              (new_comps \<noteq> [] \<and> last new_comps = ''..'')
        then norm_comps ini (new_comps @ [part]) comps
      else if new_comps \<noteq> [] then norm_comps ini (butlast new_comps) comps
      else norm_comps ini new_comps comps)"

definition normpath :: "string \<Rightarrow> string" where
  "normpath p =
     (if p = [] then ''.''
      else
        (let ini = initial_slashes p;
             joined = join_with CHR ''/'' (norm_comps ini [] (split_on CHR ''/'' p));
             res = (if ini \<noteq> 0 then replicate ini CHR ''/'' @ joined else joined)
         in if res = [] then ''.'' else res))"

text \<open>\<^verbatim>\<open>abspath(path)\<close>, with the current directory \<^verbatim>\<open>os.getcwd()\<close> as first argument.\<close>

definition abspath :: "string \<Rightarrow> string \<Rightarrow> string" where
  "abspath cwd0 p =
     normpath (if \<not> isabs p
               then (if cwd0 = [] \<or> endswith cwd0 ''/'' then cwd0 @ p else cwd0 @ ''/'' @ p)
               else p)"

text \<open>\<^verbatim>\<open>dirname(p)\<close>: up to the last \<^verbatim>\<open>/\<close>, then without trailing slashes unless it is all slashes.\<close>

definition rstrip_slash :: "string \<Rightarrow> string" where
  "rstrip_slash s = rev (dropWhile (\<lambda>c. c = CHR ''/'') (rev s))"

definition dirname :: "string \<Rightarrow> string" where
  "dirname p =
     (let head = rev (dropWhile (\<lambda>c. c \<noteq> CHR ''/'') (rev p))
      in if head \<noteq> [] \<and> head \<noteq> replicate (length head) CHR ''/''
         then rstrip_slash head
         else head)"



text \<open>
  The version of a request line as \<^verbatim>\<open>parse_request\<close> reads it: \<^verbatim>\<open>HTTP/\<close>, then two
  numbers of at most ten digits with one dot between them. \<open>None\<close> is the \<^verbatim>\<open>ValueError\<close>
  that the method answers with 400.
\<close>

definition version_number :: "string \<Rightarrow> (nat \<times> nat) option" where
  "version_number version =
     (if \<not> startswith version ''HTTP/'' then None
      else
        (case split_on CHR ''.'' (drop 5 version) of
           [a, b] \<Rightarrow>
             if \<not> py_isdigit a \<or> \<not> py_isdigit b then None
             else if length a > 10 \<or> length b > 10 then None
             else (case (py_int a, py_int b) of
                     (Some major, Some minor) \<Rightarrow> Some (major, minor)
                   | _ \<Rightarrow> None)
         | _ \<Rightarrow> None))"

text \<open>\<^verbatim>\<open>if self.path.startswith('//'): self.path = '/' + self.path.lstrip('/')\<close>.\<close>

definition single_slash :: "string \<Rightarrow> string" where
  "single_slash p =
     (if startswith p ''//'' then CHR ''/'' # dropWhile (\<lambda>c. c = CHR ''/'') p else p)"

section \<open>The inherited request handler\<close>

text \<open>
  \<^verbatim>\<open>MyHTTPRequestHandler\<close> subclasses \<^verbatim>\<open>http.server.SimpleHTTPRequestHandler\<close> of the
  Python standard library and overrides one method, \<^verbatim>\<open>end_headers\<close>. The inherited
  methods that the override calls, and the inherited methods that call the override, are
  transcribed here from \<^verbatim>\<open>http/server.py\<close> (CPython 3.11), method by method, from
  \<^verbatim>\<open>handle\<close> down. Logging to standard error (\<^verbatim>\<open>log_request\<close>, \<^verbatim>\<open>log_error\<close>) is left
  out: no byte sent to the client depends on it. Faults of the connection itself (a
  timeout, a client that hangs up) are not modelled.
\<close>

text \<open>
  Python exceptions. \<^verbatim>\<open>except KeyboardInterrupt\<close> catches the first only, \<^verbatim>\<open>except
  Exception\<close> the last two kinds, and a bare \<^verbatim>\<open>except:\<close> every one of them.
  \<^verbatim>\<open>ValueError\<close> is \<open>Exception ''ValueError''\<close>.
\<close>

datatype exn = KeyboardInterrupt | SystemExit | OSError string | Exception string

text \<open>
  What a client sends on a connection. The request line is the bytes that
  \<^verbatim>\<open>rfile.readline(65537)\<close> returns, line end included (empty when the client sends
  nothing). The header block is given by what \<^verbatim>\<open>http.client.parse_headers\<close> makes of it:
  the two exceptions that \<^verbatim>\<open>parse_request\<close> catches, with \<^verbatim>\<open>str(err)\<close>, or the headers,
  of which the handler reads four.
\<close>

datatype header_block = HeadersOk | LineTooLong string | TooManyHeaders string

datatype if_modified_since =
    Absent          \<comment> \<open>no \<^verbatim>\<open>If-Modified-Since\<close> header\<close>
  | Illformed       \<comment> \<open>\<^verbatim>\<open>parsedate_to_datetime\<close> raises: the value is ignored\<close>
  | Naive int       \<comment> \<open>a date with no time zone, in seconds; read as UTC\<close>
  | Utc int         \<comment> \<open>a date whose zone is \<^verbatim>\<open>timezone.utc\<close>, in seconds\<close>
  | Offset int      \<comment> \<open>a date in another zone: not compared\<close>

record request =
  raw_requestline :: string
  header_block :: header_block
  connection :: string           \<comment> \<open>\<^verbatim>\<open>headers.get('Connection', "")\<close>\<close>
  expect :: string               \<comment> \<open>\<^verbatim>\<open>headers.get('Expect', "")\<close>\<close>
  ims :: if_modified_since
  if_none_match :: bool          \<comment> \<open>\<^verbatim>\<open>"If-None-Match" in headers\<close>\<close>

text \<open>
  The attributes of the handler object. \<open>command\<close> is \<open>None\<close> for Python's \<^verbatim>\<open>None\<close>.
  \<open>uncaught\<close> is set when a method raises an exception that no method of the handler
  catches: the handler does nothing after that.
\<close>

record handler =
  directory :: string
  requestline :: string
  command :: "string option"
  path :: string
  request_version :: string
  req_ims :: if_modified_since
  req_if_none_match :: bool
  headers_buffer :: "string list"
  wfile :: string
  close_connection :: bool
  uncaught :: "exn option"

text \<open>
  An opened file: its bytes, the size \<^verbatim>\<open>os.fstat\<close> reports (\<^verbatim>\<open>fs[6]\<close>) and the time of its
  last modification (whole seconds). What \<^verbatim>\<open>open(path, 'rb')\<close> does: it opens the file, it
  raises \<^verbatim>\<open>OSError\<close>, or it raises \<^verbatim>\<open>ValueError\<close> (a NUL byte in the name).
\<close>

record opened_file =
  content :: string
  st_size :: nat
  mtime :: int

datatype open_result = Opened opened_file | Raises_OSError | Raises_ValueError

text \<open>
  What the handler asks of the file system and of library helpers whose text is not
  needed here (URL and date formatting, MIME types, HTML pages): each is a field of the
  \<open>facility\<close>, so every theorem holds for whatever they compute.
\<close>

record facility =
  translate_path :: "string \<Rightarrow> string \<Rightarrow> string"
    \<comment> \<open>\<^verbatim>\<open>translate_path\<close>: the served directory and the request path to a file name\<close>
  isdir :: "string \<Rightarrow> bool"
  isfile :: "string \<Rightarrow> bool"
  open_rb :: "string \<Rightarrow> open_result"
    \<comment> \<open>\<^verbatim>\<open>open(path, 'rb')\<close>\<close>
  listing :: "string \<Rightarrow> string \<Rightarrow> string option"
    \<comment> \<open>the encoded page of \<^verbatim>\<open>list_directory\<close>; \<open>None\<close> when \<^verbatim>\<open>os.listdir\<close> raises\<close>
  guess_type :: "string \<Rightarrow> string"
  url_path :: "string \<Rightarrow> string"
    \<comment> \<open>\<^verbatim>\<open>urlsplit(self.path).path\<close>\<close>
  redirect_url :: "string \<Rightarrow> string"
    \<comment> \<open>\<^verbatim>\<open>urlunsplit\<close> of the request path with \<^verbatim>\<open>/\<close> added\<close>
  fs_encoding :: string
  version_string :: string
  date_now :: string
    \<comment> \<open>\<^verbatim>\<open>date_time_string()\<close>\<close>
  http_date :: "int \<Rightarrow> string"
    \<comment> \<open>\<^verbatim>\<open>date_time_string(timestamp)\<close>\<close>
  responses :: "nat \<Rightarrow> (string \<times> string) option"
    \<comment> \<open>the table of short and long messages per status code\<close>
  error_body :: "nat \<Rightarrow> string \<Rightarrow> string \<Rightarrow> string"
    \<comment> \<open>\<^verbatim>\<open>error_message_format\<close> filled in and encoded\<close>
  unsupported_message :: "string \<Rightarrow> string"
    \<comment> \<open>\<^verbatim>\<open>"Unsupported method (%r)" % command\<close>\<close>
  bad_version_message :: "string \<Rightarrow> string"
    \<comment> \<open>\<^verbatim>\<open>"Bad request version (%r)" % version\<close>\<close>
  bad_syntax_message :: "string \<Rightarrow> string"
    \<comment> \<open>\<^verbatim>\<open>"Bad request syntax (%r)" % requestline\<close>\<close>
  bad_type_message :: "string \<Rightarrow> string"
    \<comment> \<open>\<^verbatim>\<open>"Bad HTTP/0.9 request type (%r)" % command\<close>\<close>

definition protocol_version :: string where
  "protocol_version = ''HTTP/1.0''"

definition default_request_version :: string where
  "default_request_version = ''HTTP/0.9''"

definition error_content_type :: string where
  "error_content_type = ''text/html;charset=utf-8''"

subsection \<open>\<^verbatim>\<open>BaseHTTPRequestHandler\<close>\<close>

definition send_response_only :: "facility \<Rightarrow> nat \<Rightarrow> string option \<Rightarrow> handler \<Rightarrow> handler" where
  "send_response_only fac code message h =
     (if request_version h \<noteq> ''HTTP/0.9'' then
        (let msg = (case message of
                      Some m \<Rightarrow> m
                    | None \<Rightarrow> (case responses fac code of Some (short, long) \<Rightarrow> short | None \<Rightarrow> ''''))
         in h\<lparr>headers_buffer := headers_buffer h @
                 [protocol_version @ '' '' @ str_nat code @ '' '' @ msg @ CRLF]\<rparr>)
      else h)"

definition send_header :: "string \<Rightarrow> string \<Rightarrow> handler \<Rightarrow> handler" where
  "send_header keyword val h =
     (let h1 = (if request_version h \<noteq> ''HTTP/0.9''
                then h\<lparr>headers_buffer := headers_buffer h @ [keyword @ '': '' @ val @ CRLF]\<rparr>
                else h)
      in if lower keyword = ''connection'' then
           (if lower val = ''close'' then h1\<lparr>close_connection := True\<rparr>
            else if lower val = ''keep-alive'' then h1\<lparr>close_connection := False\<rparr>
            else h1)
         else h1)"

definition flush_headers :: "handler \<Rightarrow> handler" where
  "flush_headers h = h\<lparr>wfile := wfile h @ concat (headers_buffer h), headers_buffer := []\<rparr>"

text \<open>\<^verbatim>\<open>BaseHTTPRequestHandler.end_headers\<close>, which the script reaches as \<^verbatim>\<open>super().end_headers()\<close>.\<close>

definition base_end_headers :: "handler \<Rightarrow> handler" where
  "base_end_headers h =
     (if request_version h \<noteq> ''HTTP/0.9''
      then flush_headers (h\<lparr>headers_buffer := headers_buffer h @ [CRLF]\<rparr>)
      else h)"

definition send_response :: "facility \<Rightarrow> nat \<Rightarrow> string option \<Rightarrow> handler \<Rightarrow> handler" where
  "send_response fac code message h =
     send_header ''Date'' (date_now fac)
       (send_header ''Server'' (version_string fac)
         (send_response_only fac code message h))"

text \<open>
  \<^verbatim>\<open>send_error\<close> calls \<^verbatim>\<open>self.end_headers()\<close>: the call is bound late, so the method takes
  the \<^verbatim>\<open>end_headers\<close> of the handler's class as its first argument.
\<close>

definition send_error ::
  "(handler \<Rightarrow> handler) \<Rightarrow> facility \<Rightarrow> nat \<Rightarrow> string option \<Rightarrow> string option \<Rightarrow> handler \<Rightarrow> handler" where
  "send_error end_hdrs fac code message explain h =
     (let (shortmsg, longmsg) = (case responses fac code of Some sl \<Rightarrow> sl | None \<Rightarrow> (''???'', ''???''));
          msg = (case message of Some m \<Rightarrow> m | None \<Rightarrow> shortmsg);
          expl = (case explain of Some e \<Rightarrow> e | None \<Rightarrow> longmsg);
          h1 = send_header ''Connection'' ''close'' (send_response fac code (Some msg) h);
          has_body = (code \<ge> 200 \<and> code \<notin> {204, 205, 304});
          body = error_body fac code msg expl;
          h2 = (if has_body
                then send_header ''Content-Length'' (str_nat (length body))
                       (send_header ''Content-Type'' error_content_type h1)
                else h1);
          h3 = end_hdrs h2
      in if command h \<noteq> Some ''HEAD'' \<and> has_body \<and> body \<noteq> []
         then h3\<lparr>wfile := wfile h3 @ body\<rparr>
         else h3)"


subsection \<open>\<^verbatim>\<open>SimpleHTTPRequestHandler\<close>\<close>

text \<open>\<^verbatim>\<open>os.path.join(a, b)\<close> of \<^verbatim>\<open>posixpath\<close>, for two components.\<close>

definition path_join :: "string \<Rightarrow> string \<Rightarrow> string" where
  "path_join a b =
     (if startswith b ''/'' then b
      else if a = [] \<or> endswith a ''/'' then a @ b
      else a @ ''/'' @ b)"

text \<open>
  The methods below return the handler together with the open file to copy, if any
  (\<open>None\<close> is Python's \<^verbatim>\<open>None\<close>: the caller has nothing further to send).
\<close>

definition list_directory ::
  "(handler \<Rightarrow> handler) \<Rightarrow> facility \<Rightarrow> string \<Rightarrow> handler \<Rightarrow> string option \<times> handler" where
  "list_directory end_hdrs fac p h =
     (case listing fac p (path h) of
        None \<Rightarrow> (None, send_error end_hdrs fac 404 (Some ''No permission to list directory'') None h)
      | Some encoded \<Rightarrow>
          (Some encoded,
           end_hdrs
             (send_header ''Content-Length'' (str_nat (length encoded))
               (send_header ''Content-type'' (''text/html; charset='' @ fs_encoding fac)
                 (send_response fac 200 None h)))))"

text \<open>The test of \<^verbatim>\<open>send_head\<close> that answers 304: \<^verbatim>\<open>last_modif <= ims\<close> for a date read as UTC.\<close>

definition not_modified :: "handler \<Rightarrow> opened_file \<Rightarrow> bool" where
  "not_modified h f =
     (req_ims h \<noteq> Absent \<and> \<not> req_if_none_match h \<and>
      (case req_ims h of
         Naive t \<Rightarrow> mtime f \<le> t
       | Utc t \<Rightarrow> mtime f \<le> t
       | _ \<Rightarrow> False))"

text \<open>The part of \<^verbatim>\<open>send_head\<close> after the directory case, from \<^verbatim>\<open>ctype = self.guess_type(path)\<close> on.\<close>

definition send_head_file ::
  "(handler \<Rightarrow> handler) \<Rightarrow> facility \<Rightarrow> string \<Rightarrow> handler \<Rightarrow> string option \<times> handler" where
  "send_head_file end_hdrs fac p h =
     (let ctype = guess_type fac p in
      if endswith p ''/'' then
        (None, send_error end_hdrs fac 404 (Some ''File not found'') None h)
      else
        (case open_rb fac p of
           Raises_OSError \<Rightarrow> (None, send_error end_hdrs fac 404 (Some ''File not found'') None h)
         | Raises_ValueError \<Rightarrow> (None, h\<lparr>uncaught := Some (Exception ''ValueError'')\<rparr>)
         | Opened f \<Rightarrow>
             if not_modified h f then
               (None, end_hdrs (send_response fac 304 None h))
             else
               (Some (content f),
                end_hdrs
                  (send_header ''Last-Modified'' (http_date fac (mtime f))
                    (send_header ''Content-Length'' (str_nat (st_size f))
                      (send_header ''Content-type'' ctype
                        (send_response fac 200 None h)))))))"

definition send_head ::
  "(handler \<Rightarrow> handler) \<Rightarrow> facility \<Rightarrow> handler \<Rightarrow> string option \<times> handler" where
  "send_head end_hdrs fac h =
     (let p = translate_path fac (directory h) (path h) in
      if isdir fac p then
        (if \<not> endswith (url_path fac (path h)) ''/'' then
           (None,
            end_hdrs
              (send_header ''Content-Length'' ''0''
                (send_header ''Location'' (redirect_url fac (path h))
                  (send_response fac 301 None h))))
         else if isfile fac (path_join p ''index.html'') then
           send_head_file end_hdrs fac (path_join p ''index.html'') h
         else if isfile fac (path_join p ''index.htm'') then
           send_head_file end_hdrs fac (path_join p ''index.htm'') h
         else list_directory end_hdrs fac p h)
      else send_head_file end_hdrs fac p h)"

definition do_GET :: "(handler \<Rightarrow> handler) \<Rightarrow> facility \<Rightarrow> handler \<Rightarrow> handler" where
  "do_GET end_hdrs fac h =
     (case send_head end_hdrs fac h of
        (Some bytes, h1) \<Rightarrow> h1\<lparr>wfile := wfile h1 @ bytes\<rparr>
      | (None, h1) \<Rightarrow> h1)"

definition do_HEAD :: "(handler \<Rightarrow> handler) \<Rightarrow> facility \<Rightarrow> handler \<Rightarrow> handler" where
  "do_HEAD end_hdrs fac h = snd (send_head end_hdrs fac h)"

text \<open>
  The end of \<^verbatim>\<open>handle_one_request\<close>, once the request is parsed: the method named after
  the command, or 501 when the class has none. The class has \<^verbatim>\<open>do_GET\<close> and \<^verbatim>\<open>do_HEAD\<close>.
\<close>

definition dispatch :: "(handler \<Rightarrow> handler) \<Rightarrow> facility \<Rightarrow> handler \<Rightarrow> handler" where
  "dispatch end_hdrs fac h =
     (if command h = Some ''GET'' then do_GET end_hdrs fac h
      else if command h = Some ''HEAD'' then do_HEAD end_hdrs fac h
      else send_error end_hdrs fac 501
             (Some (unsupported_message fac (case command h of Some c \<Rightarrow> c | None \<Rightarrow> []))) None h)"


subsection \<open>\<^verbatim>\<open>parse_request\<close> and \<^verbatim>\<open>handle_one_request\<close>\<close>

text \<open>
  The version check of \<^verbatim>\<open>parse_request\<close>, reached for a request line of three words or
  more. \<open>Inl\<close> is the handler after the error response (\<^verbatim>\<open>return False\<close>). The error
  responses are sent before \<^verbatim>\<open>self.request_version = version\<close>, while the handler still
  holds \<^verbatim>\<open>default_request_version\<close>.
\<close>

definition check_version ::
  "(handler \<Rightarrow> handler) \<Rightarrow> facility \<Rightarrow> string \<Rightarrow> handler \<Rightarrow> handler + handler" where
  "check_version end_hdrs fac version h =
     (case version_number version of
        None \<Rightarrow> Inl (send_error end_hdrs fac 400 (Some (bad_version_message fac version)) None h)
      | Some (major, minor) \<Rightarrow>
          (let h1 = (if (major > 1 \<or> (major = 1 \<and> minor \<ge> 1)) \<and>
                        str_ge protocol_version ''HTTP/1.1''
                     then h\<lparr>close_connection := False\<rparr> else h)
           in if major \<ge> 2 then
                Inl (send_error end_hdrs fac 505
                       (Some (''Invalid HTTP version ('' @ drop 5 version @ '')'')) None h1)
              else Inr (h1\<lparr>request_version := version\<rparr>)))"

text \<open>\<^verbatim>\<open>parse_request\<close> from \<^verbatim>\<open>command, path = words[:2]\<close> on, for two or three words.\<close>

definition parse_headers ::
  "(handler \<Rightarrow> handler) \<Rightarrow> facility \<Rightarrow> request \<Rightarrow> handler \<Rightarrow> bool \<times> handler" where
  "parse_headers end_hdrs fac rq h =
     (case header_block rq of
        LineTooLong err \<Rightarrow>
          (False, send_error end_hdrs fac 431 (Some ''Line too long'') (Some err) h)
      | TooManyHeaders err \<Rightarrow>
          (False, send_error end_hdrs fac 431 (Some ''Too many headers'') (Some err) h)
      | HeadersOk \<Rightarrow>
          (let h1 = h\<lparr>req_ims := ims rq, req_if_none_match := if_none_match rq\<rparr>;
               h2 = (if lower (connection rq) = ''close'' then h1\<lparr>close_connection := True\<rparr>
                     else if lower (connection rq) = ''keep-alive'' \<and>
                             str_ge protocol_version ''HTTP/1.1''
                       then h1\<lparr>close_connection := False\<rparr>
                     else h1)
           in if lower (expect rq) = ''100-continue'' \<and>
                 str_ge protocol_version ''HTTP/1.1'' \<and>
                 str_ge (request_version h2) ''HTTP/1.1''
              then (True, end_hdrs (send_response_only fac 100 None h2))
              else (True, h2)))"

definition parse_request ::
  "(handler \<Rightarrow> handler) \<Rightarrow> facility \<Rightarrow> request \<Rightarrow> handler \<Rightarrow> bool \<times> handler" where
  "parse_request end_hdrs fac rq h0 =
     (let line = rstrip_crlf (raw_requestline rq);
          h = h0\<lparr>command := None, request_version := default_request_version,
                  close_connection := True, requestline := line\<rparr>;
          words = py_split line
      in if length words = 0 then (False, h)
         else
           (case (if length words \<ge> 3 then check_version end_hdrs fac (last words) h else Inr h) of
              Inl h1 \<Rightarrow> (False, h1)
            | Inr h1 \<Rightarrow>
                if \<not> (2 \<le> length words \<and> length words \<le> 3) then
                  (False, send_error end_hdrs fac 400 (Some (bad_syntax_message fac line)) None h1)
                else
                  (let cmd = words ! 0;
                       h2 = (if length words = 2 then h1\<lparr>close_connection := True\<rparr> else h1)
                   in if length words = 2 \<and> cmd \<noteq> ''GET'' then
                        (False, send_error end_hdrs fac 400 (Some (bad_type_message fac cmd)) None h2)
                      else
                        parse_headers end_hdrs fac rq
                          (h2\<lparr>command := Some cmd, path := single_slash (words ! 1)\<rparr>))))"

text \<open>
  \<^verbatim>\<open>handle_one_request\<close>. A request line of more than 65536 bytes is answered 414 with
  \<^verbatim>\<open>request_version = ''\<close>; when nothing was read the connection is closed without an
  answer.
\<close>

definition handle_one_request ::
  "(handler \<Rightarrow> handler) \<Rightarrow> facility \<Rightarrow> request \<Rightarrow> handler \<Rightarrow> handler" where
  "handle_one_request end_hdrs fac rq h =
     (if length (raw_requestline rq) > 65536 then
        send_error end_hdrs fac 414 None None
          (h\<lparr>requestline := [], request_version := [], command := Some []\<rparr>)
      else if raw_requestline rq = [] then h\<lparr>close_connection := True\<rparr>
      else
        (case parse_request end_hdrs fac rq h of
           (False, h1) \<Rightarrow> h1
         | (True, h1) \<Rightarrow> dispatch end_hdrs fac h1))"

text \<open>
  \<^verbatim>\<open>handle\<close>, for a connection on which the client sends one request: the loop
  \<^verbatim>\<open>while not self.close_connection\<close> calls \<^verbatim>\<open>handle_one_request\<close> again, which reads
  nothing more and sets \<^verbatim>\<open>close_connection\<close>.
\<close>

definition handle :: "(handler \<Rightarrow> handler) \<Rightarrow> facility \<Rightarrow> request \<Rightarrow> handler \<Rightarrow> handler" where
  "handle end_hdrs fac rq h =
     (let h1 = handle_one_request end_hdrs fac rq (h\<lparr>close_connection := True\<rparr>)
      in if close_connection h1 then h1 else h1\<lparr>close_connection := True\<rparr>)"

section \<open>The script: \<^verbatim>\<open>simple-server.py\<close>\<close>

definition PORT :: int where
  "PORT = 8000"

subsection \<open>\<^verbatim>\<open>MyHTTPRequestHandler.end_headers\<close>\<close>

definition MyHTTPRequestHandler_end_headers :: "handler \<Rightarrow> handler" where
  "MyHTTPRequestHandler_end_headers h =
     base_end_headers
       (send_header ''Expires'' ''0''
         (send_header ''Pragma'' ''no-cache''
           (send_header ''Cache-Control'' ''no-cache, no-store, must-revalidate'' h)))"

text \<open>
  The handler object that serves one connection: \<^verbatim>\<open>SimpleHTTPRequestHandler.__init__\<close>
  sets \<^verbatim>\<open>directory\<close> to \<^verbatim>\<open>os.getcwd()\<close>; nothing is buffered or written yet. The other
  attributes are assigned by \<^verbatim>\<open>handle_one_request\<close> and \<^verbatim>\<open>parse_request\<close> before they are
  read.
\<close>

definition new_handler :: "string \<Rightarrow> handler" where
  "new_handler cwd0 =
     \<lparr>directory = cwd0, requestline = [], command = None, path = [], request_version = [],
      req_ims = Absent, req_if_none_match = False,
      headers_buffer = [], wfile = [], close_connection = True, uncaught = None\<rparr>"

text \<open>
  The bytes the script's handler class writes to the connection for one request. When the
  handler ends with an exception (\<open>uncaught\<close>), \<^verbatim>\<open>socketserver\<close> catches it, as it is an
  \<^verbatim>\<open>Exception\<close>, and closes the connection: the client has what was written until then.
\<close>

definition MyHTTPRequestHandler :: "facility \<Rightarrow> string \<Rightarrow> request \<Rightarrow> string" where
  "MyHTTPRequestHandler fac cwd0 rq =
     wfile (handle MyHTTPRequestHandler_end_headers fac rq (new_handler cwd0))"


subsection \<open>The process and its surroundings\<close>

text \<open>
  The calls of \<^verbatim>\<open>main\<close> that reach outside the process, up to the serving loop: line 24
  (\<^verbatim>\<open>abspath\<close>, \<^verbatim>\<open>chdir\<close>), the seven \<^verbatim>\<open>print\<close> calls of the banner, numbered in source
  order, the constructor of the server (bind and listen), and \<^verbatim>\<open>webbrowser.open\<close>.
\<close>

datatype point = AtChdir | AtPrint nat | AtBind | AtBrowser

text \<open>What the process does that can be seen from outside, in the order it does it.\<close>

datatype event =
    Chdir string              \<comment> \<open>the working directory is now this one\<close>
  | Print string              \<comment> \<open>a line on standard output\<close>
  | Bind string int           \<comment> \<open>\<^verbatim>\<open>socket.bind((host, port))\<close> is called\<close>
  | Listen                    \<comment> \<open>the bind succeeded and the socket listens\<close>
  | Browser string            \<comment> \<open>\<^verbatim>\<open>webbrowser.open(url)\<close> is called\<close>
  | Response request string   \<comment> \<open>a request is answered with these bytes\<close>
  | Close                     \<comment> \<open>\<^verbatim>\<open>server_close()\<close>\<close>

record proc =
  cwd :: string
  trace :: "event list"

text \<open>What arrives while the process is inside \<^verbatim>\<open>serve_forever\<close>.\<close>

datatype input =
    Request request           \<comment> \<open>a connection with this request\<close>
  | Raise exn                 \<comment> \<open>an exception raised in the loop: a signal, a fault\<close>

text \<open>
  A run is decided by what surrounds the process: how it was started, which outside call
  raises what (\<open>fault\<close>; \<open>None\<close> is a normal return), what arrives while it serves, and
  the file system and library behind the handler.
\<close>

record env =
  script_file :: string          \<comment> \<open>\<^verbatim>\<open>__file__\<close>\<close>
  invocation_cwd :: string       \<comment> \<open>the directory the process is started in\<close>
  getcwd_in :: "string \<Rightarrow> string"
    \<comment> \<open>what \<^verbatim>\<open>os.getcwd()\<close> returns after \<^verbatim>\<open>os.chdir\<close> to a path: symbolic links resolved\<close>
  argv :: "string list"          \<comment> \<open>command-line arguments\<close>
  environ :: "(string \<times> string) list"   \<comment> \<open>environment variables\<close>
  fault :: "point \<Rightarrow> exn option"
  inputs :: "input list"
  world :: facility

text \<open>
  The result of a statement: it completed, it raised, or it is still inside
  \<^verbatim>\<open>serve_forever\<close> with every input given so far consumed (the loop has no exit of its
  own: nothing in the script calls \<^verbatim>\<open>shutdown\<close>).
\<close>

datatype res = Done | Raised exn | Blocked

type_synonym stmt = "proc \<Rightarrow> res \<times> proc"

text \<open>Statements in sequence: the first that does not complete ends the block.\<close>

fun seq :: "stmt list \<Rightarrow> stmt" where
  "seq [] s = (Done, s)"
| "seq (c # cs) s =
     (case c s of
        (Done, s1) \<Rightarrow> seq cs s1
      | (r, s1) \<Rightarrow> (r, s1))"

definition emit :: "event \<Rightarrow> proc \<Rightarrow> proc" where
  "emit ev s = s\<lparr>trace := trace s @ [ev]\<rparr>"

definition py_print :: "env \<Rightarrow> nat \<Rightarrow> string \<Rightarrow> stmt" where
  "py_print e k line s =
     (case fault e (AtPrint k) of
        Some x \<Rightarrow> (Raised x, s)
      | None \<Rightarrow> (Done, emit (Print line) s))"

text \<open>
  Line 24: \<^verbatim>\<open>os.chdir(os.path.dirname(os.path.abspath(__file__)))\<close>. The state keeps
  what \<^verbatim>\<open>os.getcwd()\<close> returns from then on.
\<close>

definition chdir_script :: "env \<Rightarrow> stmt" where
  "chdir_script e s =
     (case fault e AtChdir of
        Some x \<Rightarrow> (Raised x, s)
      | None \<Rightarrow>
          (let d = getcwd_in e (dirname (abspath (cwd s) (script_file e)))
           in (Done, emit (Chdir d) (s\<lparr>cwd := d\<rparr>))))"

text \<open>
  \<^verbatim>\<open>socketserver.TCPServer((host, port), handler)\<close>: the constructor binds and listens;
  when that raises, it closes the socket and raises again. The handler class it is given
  is the one the serving loop of \<open>try_serve\<close> below is run with.
\<close>

definition TCPServer :: "env \<Rightarrow> string \<Rightarrow> int \<Rightarrow> stmt" where
  "TCPServer e host port s =
     (case fault e AtBind of
        Some x \<Rightarrow> (Raised x, emit Close (emit (Bind host port) s))
      | None \<Rightarrow> (Done, emit Listen (emit (Bind host port) s)))"

definition webbrowser_open :: "env \<Rightarrow> string \<Rightarrow> stmt" where
  "webbrowser_open e url s =
     (case fault e AtBrowser of
        Some x \<Rightarrow> (Raised x, emit (Browser url) s)
      | None \<Rightarrow> (Done, emit (Browser url) s))"

text \<open>
  \<^verbatim>\<open>httpd.serve_forever()\<close>: each request is answered by a new object of the handler
  class, made while the working directory is \<open>cwd s\<close>; an exception that is not an
  \<^verbatim>\<open>Exception\<close> of the request leaves the loop.
\<close>

fun serve_forever :: "(string \<Rightarrow> request \<Rightarrow> string) \<Rightarrow> input list \<Rightarrow> stmt" where
  "serve_forever handler_class [] s = (Blocked, s)"
| "serve_forever handler_class (Request rq # ins) s =
     serve_forever handler_class ins (emit (Response rq (handler_class (cwd s) rq)) s)"
| "serve_forever handler_class (Raise x # ins) s = (Raised x, s)"

subsection \<open>\<^verbatim>\<open>main\<close>\<close>

definition port_str :: string where
  "port_str = str_int PORT"

text \<open>Lines 37 to 40: \<^verbatim>\<open>try: webbrowser.open(...)\<close> with a bare \<^verbatim>\<open>except: pass\<close>.\<close>

definition try_browser :: "env \<Rightarrow> stmt" where
  "try_browser e s =
     (case webbrowser_open e (''http://localhost:'' @ port_str @ ''/index.html'') s of
        (Raised x, s1) \<Rightarrow> (Done, s1)
      | (r, s1) \<Rightarrow> (r, s1))"

text \<open>Lines 42 to 45: \<^verbatim>\<open>try: httpd.serve_forever()\<close> with \<^verbatim>\<open>except KeyboardInterrupt\<close>.\<close>

definition try_serve :: "env \<Rightarrow> stmt" where
  "try_serve e s =
     (case serve_forever (MyHTTPRequestHandler (world e)) (inputs e) s of
        (Raised x, s1) \<Rightarrow>
          (if x = KeyboardInterrupt
           then (Done, emit (Print (LF @ ''Server stopped.'')) s1)
           else (Raised x, s1))
      | (r, s1) \<Rightarrow> (r, s1))"

text \<open>The body of the \<^verbatim>\<open>with\<close> statement, lines 30 to 45.\<close>

definition with_body :: "env \<Rightarrow> stmt" where
  "with_body e =
     seq [py_print e 3 (''Server running at http://localhost:'' @ port_str @ ''/''),
          py_print e 4 (''Open http://localhost:'' @ port_str @ ''/index.html to view the application''),
          py_print e 5 (''Open http://localhost:'' @ port_str @ ''/test.html for simple test''),
          py_print e 6 (''Open http://localhost:'' @ port_str @ ''/debug.html for debugging''),
          py_print e 7 ''Press Ctrl+C to stop the server'',
          try_browser e,
          try_serve e]"

text \<open>
  \<^verbatim>\<open>main()\<close>, from the state the process starts in. \<open>Done\<close> is a normal return,
  \<open>Raised x\<close> an exception that nothing caught. Leaving the \<^verbatim>\<open>with\<close> block, normally or
  by an exception, runs \<^verbatim>\<open>__exit__\<close>, which closes the server.
\<close>

definition main :: "env \<Rightarrow> res \<times> proc" where
  "main e =
     (case seq [chdir_script e,
                py_print e 1 (''Starting HTTP server on port '' @ port_str),
                (\<lambda>s. py_print e 2 (''Serving files from: '' @ cwd s) s)]
               \<lparr>cwd = invocation_cwd e, trace = []\<rparr> of
        (Done, s) \<Rightarrow>
          (case TCPServer e '''' PORT s of
             (Done, s1) \<Rightarrow>
               (case with_body e s1 of
                  (Blocked, s2) \<Rightarrow> (Blocked, s2)
                | (r, s2) \<Rightarrow> (r, emit Close s2))
           | (r, s1) \<Rightarrow> (r, s1))
      | (r, s) \<Rightarrow> (r, s))"

section \<open>Notions used in the statements\<close>

subsection \<open>Responses\<close>

text \<open>The three header lines that the override buffers, as they go on the wire.\<close>

definition cache_headers :: string where
  "cache_headers =
     ''Cache-Control: no-cache, no-store, must-revalidate'' @ CRLF @
     ''Pragma: no-cache'' @ CRLF @
     ''Expires: 0'' @ CRLF"

text \<open>
  The bytes the inherited class writes for the same request when \<^verbatim>\<open>end_headers\<close> is not
  overridden: what the script's handler is compared with.
\<close>

definition SimpleHTTPRequestHandler :: "facility \<Rightarrow> string \<Rightarrow> request \<Rightarrow> string" where
  "SimpleHTTPRequestHandler fac cwd0 rq =
     wfile (handle base_end_headers fac rq (new_handler cwd0))"

text \<open>The entries of the table of messages, with the defaults the methods use for a missing code.\<close>

definition short_message :: "facility \<Rightarrow> nat \<Rightarrow> string" where
  "short_message fac code = (case responses fac code of Some (short, long) \<Rightarrow> short | None \<Rightarrow> [])"

definition long_message :: "facility \<Rightarrow> nat \<Rightarrow> string" where
  "long_message fac code = (case responses fac code of Some (short, long) \<Rightarrow> long | None \<Rightarrow> ''???'')"

text \<open>
  The version the handler holds when it answers a request, read off the request line:
  empty for a line of more than 65536 bytes; the last word of a line of three words or
  more when that is a well-formed version below 2.0; \<^verbatim>\<open>HTTP/0.9\<close> in every other case.
\<close>

definition version_seen :: "request \<Rightarrow> string" where
  "version_seen rq =
     (if length (raw_requestline rq) > 65536 then []
      else
        (let words = py_split (rstrip_crlf (raw_requestline rq))
         in if length words \<ge> 3 then
              (case version_number (last words) of
                 Some (major, minor) \<Rightarrow> if major < 2 then last words else ''HTTP/0.9''
               | None \<Rightarrow> ''HTTP/0.9'')
            else ''HTTP/0.9''))"

text \<open>
  A method of the handler, as a function of the class's \<^verbatim>\<open>end_headers\<close>, calls it once, on
  a handler \<open>h2\<close> that does not depend on it, that has written \<open>w\<close> and holds version
  \<open>v\<close>, and afterwards only writes a body (\<open>calls_hook\<close>); or it does not call it and
  writes nothing (\<open>silent\<close>).
\<close>

definition calls_hook ::
  "string \<Rightarrow> string \<Rightarrow> ((handler \<Rightarrow> handler) \<Rightarrow> string option \<times> handler) \<Rightarrow> bool" where
  "calls_hook w v m \<longleftrightarrow>
     (\<exists>fo h2 body. wfile h2 = w \<and> request_version h2 = v \<and>
        (\<forall>eh. m eh = (fo, (eh h2)\<lparr>wfile := wfile (eh h2) @ body\<rparr>)))"

definition silent ::
  "string \<Rightarrow> ((handler \<Rightarrow> handler) \<Rightarrow> string option \<times> handler) \<Rightarrow> bool" where
  "silent w m \<longleftrightarrow> (\<exists>h2. wfile h2 = w \<and> (\<forall>eh. m eh = (None, h2)))"

definition hook_last ::
  "string \<Rightarrow> string \<Rightarrow> ((handler \<Rightarrow> handler) \<Rightarrow> string option \<times> handler) \<Rightarrow> bool" where
  "hook_last w v m \<longleftrightarrow> calls_hook w v m \<or> silent w m"


subsection \<open>Runs\<close>

text \<open>
  The working directory after line 24, from what the process is started with: the name
  \<^verbatim>\<open>getcwd\<close> gives to the path that \<^verbatim>\<open>chdir\<close> is called with.
\<close>

definition script_dir :: "env \<Rightarrow> string" where
  "script_dir e = getcwd_in e (dirname (abspath (invocation_cwd e) (script_file e)))"

text \<open>The requests answered before the loop is left, and how the loop is left.\<close>

fun served :: "input list \<Rightarrow> request list" where
  "served [] = []"
| "served (Request rq # ins) = rq # served ins"
| "served (Raise x # ins) = []"

fun stopped_by :: "input list \<Rightarrow> res" where
  "stopped_by [] = Blocked"
| "stopped_by (Request rq # ins) = stopped_by ins"
| "stopped_by (Raise x # ins) = Raised x"

text \<open>The events of a start in which no call raises, up to the call of \<^verbatim>\<open>serve_forever\<close>.\<close>

definition startup :: "env \<Rightarrow> event list" where
  "startup e =
     [Chdir (script_dir e),
      Print ''Starting HTTP server on port 8000'',
      Print (''Serving files from: '' @ script_dir e),
      Bind '''' 8000,
      Listen,
      Print ''Server running at http://localhost:8000/'',
      Print ''Open http://localhost:8000/index.html to view the application'',
      Print ''Open http://localhost:8000/test.html for simple test'',
      Print ''Open http://localhost:8000/debug.html for debugging'',
      Print ''Press Ctrl+C to stop the server'',
      Browser ''http://localhost:8000/index.html'']"

definition answers :: "env \<Rightarrow> event list" where
  "answers e =
     map (\<lambda>rq. Response rq (MyHTTPRequestHandler (world e) (script_dir e) rq)) (served (inputs e))"

text \<open>The addresses of the bind calls in a trace, in order.\<close>

fun binds :: "event list \<Rightarrow> (string \<times> int) list" where
  "binds [] = []"
| "binds (Bind host port # evs) = (host, port) # binds evs"
| "binds (ev # evs) = binds evs"

text \<open>Every call of the browser in the trace comes after the socket listens.\<close>

fun browser_after_listen :: "bool \<Rightarrow> event list \<Rightarrow> bool" where
  "browser_after_listen listening [] = True"
| "browser_after_listen listening (Listen # evs) = browser_after_listen True evs"
| "browser_after_listen listening (Browser url # evs) =
     (listening \<and> browser_after_listen listening evs)"
| "browser_after_listen listening (ev # evs) = browser_after_listen listening evs"


definition no_fault :: "point \<Rightarrow> exn option" where
  "no_fault = (\<lambda>p. None)"

subsection \<open>A concrete site and a concrete start\<close>

text \<open>
  A served directory \<^verbatim>\<open>/srv/app\<close> that holds one file, \<^verbatim>\<open>index.html\<close>, last modified at
  second 1000. The helper fields are stand-ins that agree with the library on the paths
  used below; the error page is shortened to one line.
\<close>

definition site :: facility where
  "site =
     \<lparr>translate_path = (\<lambda>d p. d @ p),
      isdir = (\<lambda>p. p = ''/srv/app/''),
      isfile = (\<lambda>p. p = ''/srv/app/index.html''),
      open_rb = (\<lambda>p. if p = ''/srv/app/index.html''
                      then Opened \<lparr>content = ''<h1>hi</h1>'', st_size = 11, mtime = 1000\<rparr>
                      else Raises_OSError),
      listing = (\<lambda>p u. None),
      guess_type = (\<lambda>p. ''text/html''),
      url_path = (\<lambda>p. p),
      redirect_url = (\<lambda>p. p @ ''/''),
      fs_encoding = ''utf-8'',
      version_string = ''SimpleHTTP/0.6 Python/3.11.10'',
      date_now = ''Tue, 03 Nov 2026 14:00:00 GMT'',
      http_date = (\<lambda>t. ''Thu, 01 Jan 1970 00:16:40 GMT''),
      responses =
        (\<lambda>c. if c = 200 then Some (''OK'', ''Request fulfilled, document follows'')
              else if c = 304 then Some (''Not Modified'', ''Document has not changed since given time'')
              else if c = 404 then Some (''Not Found'', ''Nothing matches the given URI'')
              else None),
      error_body = (\<lambda>c m e. ''<p>Error code: '' @ str_nat c @ ''</p>''),
      unsupported_message = (\<lambda>c. ''Unsupported method''),
      bad_version_message = (\<lambda>v. ''Bad request version''),
      bad_syntax_message = (\<lambda>l. ''Bad request syntax''),
      bad_type_message = (\<lambda>c. ''Bad HTTP/0.9 request type'')\<rparr>"

text \<open>
  The request \<^verbatim>\<open>GET p v\<close> with no header that the handler reads, and the request
  \<^verbatim>\<open>GET p\<close>, whose line has no version.
\<close>

definition get_request :: "string \<Rightarrow> string \<Rightarrow> request" where
  "get_request p v =
     \<lparr>raw_requestline = ''GET '' @ p @ '' '' @ v @ CRLF, header_block = HeadersOk,
      connection = [], expect = [], ims = Absent, if_none_match = False\<rparr>"

definition simple_request :: "string \<Rightarrow> request" where
  "simple_request p =
     \<lparr>raw_requestline = ''GET '' @ p @ CRLF, header_block = HeadersOk,
      connection = [], expect = [], ims = Absent, if_none_match = False\<rparr>"

text \<open>
  The script lies in \<^verbatim>\<open>/srv/app\<close> and is started from \<^verbatim>\<open>/home/dev\<close>, with an argument
  and an environment variable that name another port; one request arrives, then Ctrl+C.
\<close>

definition demo_env :: env where
  "demo_env =
     \<lparr>script_file = ''/srv/app/simple-server.py'',
      invocation_cwd = ''/home/dev'',
      getcwd_in = (\<lambda>d. d),
      argv = [''simple-server.py'', ''9000''],
      environ = [(''PORT'', ''9000'')],
      fault = no_fault,
      inputs = [Request (get_request ''/index.html'' ''HTTP/1.1''), Raise KeyboardInterrupt],
      world = site\<rparr>"

text \<open>
  The 404 answer of \<^verbatim>\<open>send_error\<close> for a file that is not found, with \<open>extra\<close> header
  lines between the headers of the inherited class and the blank line.
\<close>

definition not_found_response :: "facility \<Rightarrow> string \<Rightarrow> string" where
  "not_found_response fac extra =
     ''HTTP/1.0 404 File not found'' @ CRLF @
     ''Server: '' @ version_string fac @ CRLF @
     ''Date: '' @ date_now fac @ CRLF @
     ''Connection: close'' @ CRLF @
     ''Content-Type: text/html;charset=utf-8'' @ CRLF @
     ''Content-Length: '' @
        str_nat (length (error_body fac 404 ''File not found'' (long_message fac 404))) @ CRLF @
     extra @ CRLF @
     error_body fac 404 ''File not found'' (long_message fac 404)"




subsection \<open>The directory that holds a file\<close>








section \<open>Properties of the handler\<close>

subsection \<open>Header lines\<close>

lemma lower_literals:
  "lower ''Cache-Control'' = ''cache-control''"
  "lower ''Pragma'' = ''pragma''"
  "lower ''Expires'' = ''expires''"
  "lower ''Server'' = ''server''"
  "lower ''Date'' = ''date''"
  "lower ''Connection'' = ''connection''"
  "lower ''close'' = ''close''"
  "lower ''Content-Type'' = ''content-type''"
  "lower ''Content-type'' = ''content-type''"
  "lower ''Content-Length'' = ''content-length''"
  "lower ''Last-Modified'' = ''last-modified''"
  "lower ''Location'' = ''location''"
  by (simp_all add: lower_def lower_char_def)

lemma str_nat_codes:
  "str_nat 200 = ''200''" "str_nat 304 = ''304''" "str_nat 404 = ''404''"
  by (simp_all add: str_nat.simps digit_char_def)

lemma not_http11: "\<not> str_ge protocol_version ''HTTP/1.1''"
  by (simp add: str_ge_def protocol_version_def)

lemma send_header_fields:
  "wfile (send_header k v h) = wfile h"
  "request_version (send_header k v h) = request_version h"
  "command (send_header k v h) = command h"
  "headers_buffer (send_header k v h) =
     (if request_version h \<noteq> ''HTTP/0.9'' then headers_buffer h @ [k @ '': '' @ v @ CRLF]
      else headers_buffer h)"
  by (simp_all add: send_header_def Let_def)

lemma send_response_only_fields:
  "wfile (send_response_only fac c m h) = wfile h"
  "request_version (send_response_only fac c m h) = request_version h"
  "command (send_response_only fac c m h) = command h"
  by (simp_all add: send_response_only_def Let_def)

lemma send_response_fields:
  "wfile (send_response fac c m h) = wfile h"
  "request_version (send_response fac c m h) = request_version h"
  "command (send_response fac c m h) = command h"
  by (simp_all add: send_response_def send_header_fields send_response_only_fields)

lemma send_response_buffer:
  "request_version h \<noteq> ''HTTP/0.9'' \<Longrightarrow>
   headers_buffer (send_response fac code (Some msg) h) =
     headers_buffer h @
       [''HTTP/1.0 '' @ str_nat code @ '' '' @ msg @ CRLF,
        ''Server: '' @ version_string fac @ CRLF,
        ''Date: '' @ date_now fac @ CRLF]"
  "request_version h \<noteq> ''HTTP/0.9'' \<Longrightarrow>
   headers_buffer (send_response fac code None h) =
     headers_buffer h @
       [''HTTP/1.0 '' @ str_nat code @ '' '' @ short_message fac code @ CRLF,
        ''Server: '' @ version_string fac @ CRLF,
        ''Date: '' @ date_now fac @ CRLF]"
  by (simp_all add: send_response_def send_header_fields send_response_only_fields
      send_response_only_def protocol_version_def short_message_def split: option.splits)

lemma base_end_headers_wfile:
  "wfile (base_end_headers h) =
     (if request_version h \<noteq> ''HTTP/0.9'' then wfile h @ concat (headers_buffer h) @ CRLF
      else wfile h)"
  by (simp add: base_end_headers_def flush_headers_def)

lemma my_end_headers_wfile:
  "wfile (MyHTTPRequestHandler_end_headers h) =
     (if request_version h \<noteq> ''HTTP/0.9''
      then wfile h @ concat (headers_buffer h) @ cache_headers @ CRLF
      else wfile h)"
  by (simp add: MyHTTPRequestHandler_end_headers_def base_end_headers_wfile
      send_header_fields cache_headers_def)

subsection \<open>Every method calls \<^verbatim>\<open>end_headers\<close> at most once, after the last header\<close>

lemma calls_hookI:
  assumes "wfile h2 = w" "request_version h2 = v"
    and "\<And>eh. m eh = (fo, (eh h2)\<lparr>wfile := wfile (eh h2) @ body\<rparr>)"
  shows "calls_hook w v m"
  unfolding calls_hook_def using assms by blast

lemma silentI:
  assumes "wfile h2 = w" and "\<And>eh. m eh = (None, h2)"
  shows "hook_last w v m"
  unfolding hook_last_def silent_def using assms by blast

lemma calls_hook_last: "calls_hook w v m \<Longrightarrow> hook_last w v m"
  by (simp add: hook_last_def)

lemma calls_hook_cong:
  assumes "calls_hook w v g" "\<And>eh. m eh = g eh"
  shows "calls_hook w v m"
proof -
  have "m = g" using assms(2) by (simp add: fun_eq_iff)
  with assms(1) show ?thesis by simp
qed

lemma hook_last_cong:
  assumes "hook_last w v g" "\<And>eh. m eh = g eh"
  shows "hook_last w v m"
proof -
  have "m = g" using assms(2) by (simp add: fun_eq_iff)
  with assms(1) show ?thesis by simp
qed

lemma calls_hook_send_error:
  "calls_hook (wfile h) (request_version h) (\<lambda>eh. (None, send_error eh fac c m x h))"
proof -
  obtain shortmsg longmsg where sl:
    "(case responses fac c of Some sl \<Rightarrow> sl | None \<Rightarrow> (''???'', ''???'')) = (shortmsg, longmsg)"
    by (cases "case responses fac c of Some sl \<Rightarrow> sl | None \<Rightarrow> (''???'', ''???'')") auto
  define msg where "msg = (case m of Some m' \<Rightarrow> m' | None \<Rightarrow> shortmsg)"
  define expl where "expl = (case x of Some e \<Rightarrow> e | None \<Rightarrow> longmsg)"
  define h1 where "h1 = send_header ''Connection'' ''close'' (send_response fac c (Some msg) h)"
  define has_body where "has_body = (c \<ge> 200 \<and> c \<notin> {204, 205, 304})"
  define body where "body = error_body fac c msg expl"
  define h2 where "h2 = (if has_body
                then send_header ''Content-Length'' (str_nat (length body))
                       (send_header ''Content-Type'' error_content_type h1)
                else h1)"
  define out where
    "out = (if command h \<noteq> Some ''HEAD'' \<and> has_body \<and> body \<noteq> [] then body else [])"
  show ?thesis
  proof (rule calls_hookI [where ?h2.0 = h2 and body = out and fo = None])
    show "wfile h2 = wfile h" "request_version h2 = request_version h"
      by (simp_all add: h2_def h1_def send_header_fields send_response_fields)
    show "(None, send_error eh fac c m x h) = (None, (eh h2)\<lparr>wfile := wfile (eh h2) @ out\<rparr>)" for eh
      using sl
      by (simp add: send_error_def Let_def msg_def expl_def h1_def has_body_def body_def h2_def out_def)
  qed
qed

lemmas hook_last_send_error = calls_hook_last [OF calls_hook_send_error]

lemma hook_last_list_directory:
  "hook_last (wfile h) (request_version h) (\<lambda>eh. list_directory eh fac p h)"
proof (cases "listing fac p (path h)")
  case None
  show ?thesis
    by (rule hook_last_cong [OF hook_last_send_error]) (simp add: list_directory_def None)
next
  case (Some encoded)
  define h2 where "h2 = send_header ''Content-Length'' (str_nat (length encoded))
               (send_header ''Content-type'' (''text/html; charset='' @ fs_encoding fac)
                 (send_response fac 200 None h))"
  show ?thesis
  proof (rule calls_hook_last, rule calls_hookI [where ?h2.0 = h2 and body = "[]" and fo = "Some encoded"])
    show "wfile h2 = wfile h" "request_version h2 = request_version h"
      by (simp_all add: h2_def send_header_fields send_response_fields)
    show "list_directory eh fac p h = (Some encoded, (eh h2)\<lparr>wfile := wfile (eh h2) @ []\<rparr>)" for eh
      using Some by (simp add: list_directory_def h2_def)
  qed
qed

lemma hook_last_send_head_file:
  "hook_last (wfile h) (request_version h) (\<lambda>eh. send_head_file eh fac p h)"
proof (cases "endswith p ''/'' \<or> open_rb fac p = Raises_OSError")
  case True
  show ?thesis
    by (rule hook_last_cong [OF hook_last_send_error [of h fac 404 "Some ''File not found''" None]])
      (use True in \<open>auto simp: send_head_file_def\<close>)
next
  case False
  then have sl: "\<not> endswith p ''/''" and no: "open_rb fac p \<noteq> Raises_OSError" by auto
  show ?thesis
  proof (cases "open_rb fac p")
    case Raises_OSError
    with no show ?thesis by simp
  next
    case Raises_ValueError
    show ?thesis
    proof (rule silentI [where ?h2.0 = "h\<lparr>uncaught := Some (Exception ''ValueError'')\<rparr>"])
      show "send_head_file eh fac p h = (None, h\<lparr>uncaught := Some (Exception ''ValueError'')\<rparr>)" for eh
        using sl Raises_ValueError by (simp add: send_head_file_def)
    qed simp
  next
    case (Opened f)
    show ?thesis
    proof (cases "not_modified h f")
      case True
      show ?thesis
      proof (rule calls_hook_last,
          rule calls_hookI [where ?h2.0 = "send_response fac 304 None h" and body = "[]" and fo = None])
        show "send_head_file eh fac p h =
            (None, (eh (send_response fac 304 None h))
                     \<lparr>wfile := wfile (eh (send_response fac 304 None h)) @ []\<rparr>)" for eh
          using Opened sl True by (simp add: send_head_file_def)
      qed (simp_all add: send_response_fields)
    next
      case False
      define h2 where "h2 = send_header ''Last-Modified'' (http_date fac (mtime f))
                    (send_header ''Content-Length'' (str_nat (st_size f))
                      (send_header ''Content-type'' (guess_type fac p)
                        (send_response fac 200 None h)))"
      show ?thesis
      proof (rule calls_hook_last,
          rule calls_hookI [where ?h2.0 = h2 and body = "[]" and fo = "Some (content f)"])
        show "wfile h2 = wfile h" "request_version h2 = request_version h"
          by (simp_all add: h2_def send_header_fields send_response_fields)
        show "send_head_file eh fac p h = (Some (content f), (eh h2)\<lparr>wfile := wfile (eh h2) @ []\<rparr>)" for eh
          using Opened sl False by (simp add: send_head_file_def h2_def)
      qed
    qed
  qed
qed

lemma hook_last_send_head:
  "hook_last (wfile h) (request_version h) (\<lambda>eh. send_head eh fac h)"
proof -
  define p where "p = translate_path fac (directory h) (path h)"
  show ?thesis
  proof (cases "isdir fac p")
    case False
    show ?thesis
      by (rule hook_last_cong [OF hook_last_send_head_file [of h fac p]])
        (use False in \<open>simp add: send_head_def p_def\<close>)
  next
    case dir: True
    show ?thesis
    proof (cases "endswith (url_path fac (path h)) ''/''")
      case False
      define h2 where "h2 = send_header ''Content-Length'' ''0''
                  (send_header ''Location'' (redirect_url fac (path h))
                    (send_response fac 301 None h))"
      show ?thesis
      proof (rule calls_hook_last, rule calls_hookI [where ?h2.0 = h2 and body = "[]" and fo = None])
        show "wfile h2 = wfile h" "request_version h2 = request_version h"
          by (simp_all add: h2_def send_header_fields send_response_fields)
        show "send_head eh fac h = (None, (eh h2)\<lparr>wfile := wfile (eh h2) @ []\<rparr>)" for eh
          using dir False by (simp add: send_head_def h2_def p_def)
      qed
    next
      case slash: True
      show ?thesis
      proof (cases "isfile fac (path_join p ''index.html'')")
        case True
        show ?thesis
          by (rule hook_last_cong [OF hook_last_send_head_file [of h fac "path_join p ''index.html''"]])
            (use dir slash True in \<open>simp add: send_head_def p_def\<close>)
      next
        case no_html: False
        show ?thesis
        proof (cases "isfile fac (path_join p ''index.htm'')")
          case True
          show ?thesis
            by (rule hook_last_cong [OF hook_last_send_head_file [of h fac "path_join p ''index.htm''"]])
              (use dir slash no_html True in \<open>simp add: send_head_def p_def\<close>)
        next
          case False
          show ?thesis
            by (rule hook_last_cong [OF hook_last_list_directory [of h fac p]])
              (use dir slash no_html False in \<open>simp add: send_head_def p_def\<close>)
        qed
      qed
    qed
  qed
qed

lemma hook_last_dispatch:
  "hook_last (wfile h) (request_version h) (\<lambda>eh. (None, dispatch eh fac h))"
proof (cases "command h = Some ''GET'' \<or> command h = Some ''HEAD''")
  case False
  show ?thesis
    by (rule hook_last_cong [OF hook_last_send_error
          [of h fac 501 "Some (unsupported_message fac (case command h of Some c \<Rightarrow> c | None \<Rightarrow> []))" None]])
      (use False in \<open>simp add: dispatch_def\<close>)
next
  case cmd: True
  from hook_last_send_head [of h fac] show ?thesis
    unfolding hook_last_def
  proof
    assume "calls_hook (wfile h) (request_version h) (\<lambda>eh. send_head eh fac h)"
    then obtain fo :: "string option" and h2 body
      where f: "wfile h2 = wfile h" "request_version h2 = request_version h"
        "\<And>eh. send_head eh fac h = (fo, (eh h2)\<lparr>wfile := wfile (eh h2) @ body\<rparr>)"
      unfolding calls_hook_def by blast
    define out where "out = (if command h = Some ''GET''
        then body @ (case fo of Some b \<Rightarrow> b | None \<Rightarrow> []) else body)"
    have "calls_hook (wfile h) (request_version h) (\<lambda>eh. (None, dispatch eh fac h))"
    proof (rule calls_hookI [where ?h2.0 = h2 and fo = None and body = out])
      show "(None, dispatch eh fac h) = (None, (eh h2)\<lparr>wfile := wfile (eh h2) @ out\<rparr>)" for eh
        using cmd f(3) [of eh]
        by (auto simp: dispatch_def do_GET_def do_HEAD_def out_def split: option.splits)
    qed (rule f)+
    then show "calls_hook (wfile h) (request_version h) (\<lambda>eh. (None, dispatch eh fac h)) \<or>
        silent (wfile h) (\<lambda>eh. (None, dispatch eh fac h))" ..
  next
    assume "silent (wfile h) (\<lambda>eh. send_head eh fac h)"
    then obtain h2 where f: "wfile h2 = wfile h" "\<And>eh. send_head eh fac h = (None, h2)"
      unfolding silent_def by blast
    have "silent (wfile h) (\<lambda>eh. (None, dispatch eh fac h))"
      unfolding silent_def
    proof (intro exI conjI allI)
      show "wfile h2 = wfile h" by (rule f)
      show "(None, dispatch eh fac h) = (None, h2)" for eh
        using cmd f(2) [of eh] by (auto simp: dispatch_def do_GET_def do_HEAD_def)
    qed
    then show "calls_hook (wfile h) (request_version h) (\<lambda>eh. (None, dispatch eh fac h)) \<or>
        silent (wfile h) (\<lambda>eh. (None, dispatch eh fac h))" ..
  qed
qed

subsection \<open>The request line decides the version the handler answers with\<close>

lemma hook_last_parse_headers:
  "hook_last (wfile h) (request_version h)
     (\<lambda>eh. (None, case parse_headers eh fac rq h of
                     (False, h1) \<Rightarrow> h1
                   | (True, h1) \<Rightarrow> dispatch eh fac h1))"
proof (cases "header_block rq")
  case (LineTooLong err)
  show ?thesis
    by (rule hook_last_cong [OF hook_last_send_error [of h fac 431 "Some ''Line too long''" "Some err"]])
      (simp add: parse_headers_def LineTooLong)
next
  case (TooManyHeaders err)
  show ?thesis
    by (rule hook_last_cong [OF hook_last_send_error [of h fac 431 "Some ''Too many headers''" "Some err"]])
      (simp add: parse_headers_def TooManyHeaders)
next
  case HeadersOk
  define h1 where "h1 = h\<lparr>req_ims := ims rq, req_if_none_match := if_none_match rq\<rparr>"
  define h2 where "h2 = (if lower (connection rq) = ''close'' then h1\<lparr>close_connection := True\<rparr> else h1)"
  have p: "parse_headers eh fac rq h = (True, h2)" for eh
    by (simp add: parse_headers_def HeadersOk Let_def not_http11 h1_def h2_def)
  have w: "wfile h2 = wfile h" "request_version h2 = request_version h"
    by (simp_all add: h1_def h2_def)
  show ?thesis
    using hook_last_dispatch [of h2 fac] unfolding w
    by (rule hook_last_cong) (simp add: p)
qed

lemma version_seen_short:
  assumes "length (raw_requestline rq) \<le> 65536"
    and "length (py_split (rstrip_crlf (raw_requestline rq))) < 3"
  shows "version_seen rq = ''HTTP/0.9''"
  using assms by (simp add: version_seen_def Let_def)

lemma hook_last_handle_one:
  "hook_last (wfile h) (version_seen rq) (\<lambda>eh. (None, handle_one_request eh fac rq h))"
proof -
  let ?raw = "raw_requestline rq"
  let ?line = "rstrip_crlf ?raw"
  let ?words = "py_split ?line"
  let ?h = "h\<lparr>command := None, request_version := default_request_version,
              close_connection := True, requestline := ?line\<rparr>"
  consider (long) "length ?raw > 65536"
    | (eof) "length ?raw \<le> 65536" "?raw = []"
    | (blank) "length ?raw \<le> 65536" "?raw \<noteq> []" "length ?words = 0"
    | (one) "length ?raw \<le> 65536" "?raw \<noteq> []" "length ?words = 1"
    | (two) "length ?raw \<le> 65536" "?raw \<noteq> []" "length ?words = 2"
    | (more) "length ?raw \<le> 65536" "?raw \<noteq> []" "length ?words \<ge> 3"
    by linarith
  then show ?thesis
  proof cases
    case long
    define hl where "hl = h\<lparr>requestline := [], request_version := [], command := Some []\<rparr>"
    have v: "version_seen rq = request_version hl" and w: "wfile h = wfile hl"
      using long by (simp_all add: version_seen_def hl_def)
    show ?thesis
      unfolding v w
      by (rule hook_last_cong [OF hook_last_send_error [of hl fac 414 None None]])
        (use long in \<open>simp add: handle_one_request_def hl_def\<close>)
  next
    case eof
    show ?thesis
      by (rule silentI [where ?h2.0 = "h\<lparr>close_connection := True\<rparr>"])
        (use eof in \<open>simp_all add: handle_one_request_def\<close>)
  next
    case blank
    show ?thesis
      by (rule silentI [where ?h2.0 = ?h])
        (use blank in \<open>simp_all add: handle_one_request_def parse_request_def Let_def\<close>)
  next
    case one
    have ne: "?words \<noteq> []"
      using one(3) by auto
    have v: "version_seen rq = request_version ?h" and w: "wfile h = wfile ?h"
      using one by (simp_all add: version_seen_def Let_def default_request_version_def)
    show ?thesis
      unfolding v w
      by (rule hook_last_cong [OF hook_last_send_error
            [of ?h fac 400 "Some (bad_syntax_message fac ?line)" None]])
        (use one ne in \<open>simp add: handle_one_request_def parse_request_def Let_def\<close>)
  next
    case two
    have ne: "?words \<noteq> []"
      using two(3) by auto
    let ?h2 = "?h\<lparr>close_connection := True\<rparr>"
    have v: "version_seen rq = request_version ?h2" and w: "wfile h = wfile ?h2"
      using two by (simp_all add: version_seen_def Let_def default_request_version_def)
    show ?thesis
    proof (cases "?words ! 0 = ''GET''")
      case False
      show ?thesis
        unfolding v w
        by (rule hook_last_cong [OF hook_last_send_error
              [of ?h2 fac 400 "Some (bad_type_message fac (?words ! 0))" None]])
          (use ne two False in \<open>simp add: handle_one_request_def parse_request_def Let_def\<close>)
    next
      case True
      let ?h3 = "?h2\<lparr>command := Some (?words ! 0), path := single_slash (?words ! 1)\<rparr>"
      have v3: "version_seen rq = request_version ?h3" and w3: "wfile h = wfile ?h3"
        using two by (simp_all add: version_seen_def Let_def default_request_version_def)
      show ?thesis
        unfolding v3 w3
        by (rule hook_last_cong [OF hook_last_parse_headers [of ?h3 fac rq]])
          (use ne two True in \<open>simp add: handle_one_request_def parse_request_def Let_def\<close>)
    qed
  next
    case more
    have ne: "?words \<noteq> []"
      using more(3) by auto
    show ?thesis
    proof (cases "version_number (last ?words)")
      case None
      have v: "version_seen rq = request_version ?h" and w: "wfile h = wfile ?h"
        using more None by (simp_all add: version_seen_def Let_def default_request_version_def)
      show ?thesis
        unfolding v w
        by (rule hook_last_cong [OF hook_last_send_error
              [of ?h fac 400 "Some (bad_version_message fac (last ?words))" None]])
          (use ne more None in \<open>simp add: handle_one_request_def parse_request_def Let_def
              check_version_def\<close>)
    next
      case (Some mm)
      obtain major minor where mm: "mm = (major, minor)" by (cases mm)
      show ?thesis
      proof (cases "major \<ge> 2")
        case True
        have v: "version_seen rq = request_version ?h" and w: "wfile h = wfile ?h"
          using more Some mm True
          by (simp_all add: version_seen_def Let_def default_request_version_def)
        show ?thesis
          unfolding v w
          by (rule hook_last_cong [OF hook_last_send_error
                [of ?h fac 505 "Some (''Invalid HTTP version ('' @ drop 5 (last ?words) @ '')'')" None]])
            (use ne more Some mm True in \<open>simp add: handle_one_request_def parse_request_def Let_def
                check_version_def not_http11\<close>)
      next
        case False
        let ?hv = "?h\<lparr>request_version := last ?words\<rparr>"
        show ?thesis
        proof (cases "length ?words = 3")
          case False
          have v: "version_seen rq = request_version ?hv" and w: "wfile h = wfile ?hv"
            using more Some mm \<open>\<not> major \<ge> 2\<close> by (simp_all add: version_seen_def Let_def)
          show ?thesis
            unfolding v w
            by (rule hook_last_cong [OF hook_last_send_error
                  [of ?hv fac 400 "Some (bad_syntax_message fac ?line)" None]])
              (use ne more Some mm \<open>\<not> major \<ge> 2\<close> False in
                \<open>simp add: handle_one_request_def parse_request_def Let_def
                  check_version_def not_http11\<close>)
        next
          case True
          let ?h3 = "?hv\<lparr>command := Some (?words ! 0), path := single_slash (?words ! 1)\<rparr>"
          have v3: "version_seen rq = request_version ?h3" and w3: "wfile h = wfile ?h3"
            using more Some mm \<open>\<not> major \<ge> 2\<close> by (simp_all add: version_seen_def Let_def)
          show ?thesis
            unfolding v3 w3
            by (rule hook_last_cong [OF hook_last_parse_headers [of ?h3 fac rq]])
              (use ne more Some mm \<open>\<not> major \<ge> 2\<close> True in
                \<open>simp add: handle_one_request_def parse_request_def Let_def
                  check_version_def not_http11\<close>)
        qed
      qed
    qed
  qed
qed

lemma wfile_handle:
  "wfile (handle eh fac rq h) = wfile (handle_one_request eh fac rq (h\<lparr>close_connection := True\<rparr>))"
  by (simp add: handle_def Let_def)

text \<open>
  So the response of the script's class is the response of the inherited class with the
  three lines put in front of the blank line that ends the headers, when the handler
  answers with a version other than \<^verbatim>\<open>HTTP/0.9\<close>, and the same response when it answers
  with \<^verbatim>\<open>HTTP/0.9\<close>.
\<close>

lemma response_form:
  assumes "version_seen rq \<noteq> ''HTTP/0.9''"
  shows "(MyHTTPRequestHandler fac d rq = [] \<and> SimpleHTTPRequestHandler fac d rq = []) \<or>
         (\<exists>base_headers body.
            SimpleHTTPRequestHandler fac d rq = base_headers @ CRLF @ body \<and>
            MyHTTPRequestHandler fac d rq = base_headers @ cache_headers @ CRLF @ body)"
proof -
  define h where "h = (new_handler d)\<lparr>close_connection := True\<rparr>"
  have hw: "wfile h = []" by (simp add: h_def new_handler_def)
  from hook_last_handle_one [of h rq fac] show ?thesis
    unfolding hook_last_def
  proof
    assume "calls_hook (wfile h) (version_seen rq) (\<lambda>eh. (None, handle_one_request eh fac rq h))"
    then obtain fo :: "string option" and h2 body
      where f: "wfile h2 = []" "request_version h2 = version_seen rq"
        "\<And>eh. (None, handle_one_request eh fac rq h) = (fo, (eh h2)\<lparr>wfile := wfile (eh h2) @ body\<rparr>)"
      unfolding calls_hook_def hw by blast
    have v: "request_version h2 \<noteq> ''HTTP/0.9''"
      using f(2) assms by simp
    have "SimpleHTTPRequestHandler fac d rq = concat (headers_buffer h2) @ CRLF @ body"
      using f(3) [of base_end_headers] v f(1)
      by (simp add: SimpleHTTPRequestHandler_def wfile_handle h_def [symmetric] base_end_headers_wfile)
    moreover have "MyHTTPRequestHandler fac d rq =
        concat (headers_buffer h2) @ cache_headers @ CRLF @ body"
      using f(3) [of MyHTTPRequestHandler_end_headers] v f(1)
      by (simp add: MyHTTPRequestHandler_def wfile_handle h_def [symmetric] my_end_headers_wfile)
    ultimately show ?thesis by blast
  next
    assume "silent (wfile h) (\<lambda>eh. (None, handle_one_request eh fac rq h))"
    then obtain h2 where f: "wfile h2 = []" "\<And>eh. handle_one_request eh fac rq h = h2"
      unfolding silent_def hw by auto
    show ?thesis
      using f
      by (simp add: SimpleHTTPRequestHandler_def MyHTTPRequestHandler_def wfile_handle h_def [symmetric])
  qed
qed

lemma response_same:
  assumes "version_seen rq = ''HTTP/0.9''"
  shows "MyHTTPRequestHandler fac d rq = SimpleHTTPRequestHandler fac d rq"
proof -
  define h where "h = (new_handler d)\<lparr>close_connection := True\<rparr>"
  have hw: "wfile h = []" by (simp add: h_def new_handler_def)
  from hook_last_handle_one [of h rq fac] show ?thesis
    unfolding hook_last_def
  proof
    assume "calls_hook (wfile h) (version_seen rq) (\<lambda>eh. (None, handle_one_request eh fac rq h))"
    then obtain fo :: "string option" and h2 body
      where f: "wfile h2 = []" "request_version h2 = version_seen rq"
        "\<And>eh. (None, handle_one_request eh fac rq h) = (fo, (eh h2)\<lparr>wfile := wfile (eh h2) @ body\<rparr>)"
      unfolding calls_hook_def hw by blast
    have v: "request_version h2 = ''HTTP/0.9''"
      using f(2) assms by simp
    have "SimpleHTTPRequestHandler fac d rq = body"
      using f(3) [of base_end_headers] v f(1)
      by (simp add: SimpleHTTPRequestHandler_def wfile_handle h_def [symmetric] base_end_headers_wfile)
    moreover have "MyHTTPRequestHandler fac d rq = body"
      using f(3) [of MyHTTPRequestHandler_end_headers] v f(1)
      by (simp add: MyHTTPRequestHandler_def wfile_handle h_def [symmetric] my_end_headers_wfile)
    ultimately show ?thesis by simp
  next
    assume "silent (wfile h) (\<lambda>eh. (None, handle_one_request eh fac rq h))"
    then obtain h2 where f: "wfile h2 = []" "\<And>eh. handle_one_request eh fac rq h = h2"
      unfolding silent_def hw by auto
    show ?thesis
      using f
      by (simp add: SimpleHTTPRequestHandler_def MyHTTPRequestHandler_def wfile_handle h_def [symmetric])
  qed
qed

subsection \<open>A well-formed request line\<close>

lemma handle_three_words:
  assumes len: "length (raw_requestline rq) \<le> 65536"
    and words: "py_split (rstrip_crlf (raw_requestline rq)) = [cmd, p, v]"
    and ver: "version_number v = Some (major, minor)" and low: "major < 2"
    and hdr: "header_block rq = HeadersOk"
  shows "\<exists>h. (\<forall>eh. wfile (handle eh fac rq (new_handler d)) = wfile (dispatch eh fac h)) \<and>
           command h = Some cmd \<and> path h = single_slash p \<and> request_version h = v \<and>
           directory h = d \<and> wfile h = [] \<and> headers_buffer h = [] \<and>
           req_ims h = ims rq \<and> req_if_none_match h = if_none_match rq"
proof -
  have raw: "raw_requestline rq \<noteq> []"
    using words by (auto simp: rstrip_crlf_def py_split_def)
  define h0 where "h0 = (new_handler d)\<lparr>close_connection := True\<rparr>"
  define h1 where "h1 =
     (let h = h0\<lparr>command := None, request_version := default_request_version,
                  close_connection := True, requestline := rstrip_crlf (raw_requestline rq)\<rparr>;
          hv = h\<lparr>request_version := v\<rparr>;
          h3 = hv\<lparr>command := Some cmd, path := single_slash p\<rparr>;
          h4 = h3\<lparr>req_ims := ims rq, req_if_none_match := if_none_match rq\<rparr>
      in if lower (connection rq) = ''close'' then h4\<lparr>close_connection := True\<rparr> else h4)"
  have "handle_one_request eh fac rq h0 = dispatch eh fac h1" for eh
    using len raw words ver low hdr
    by (simp add: handle_one_request_def parse_request_def check_version_def parse_headers_def
        Let_def not_http11 h1_def)
  then have "wfile (handle eh fac rq (new_handler d)) = wfile (dispatch eh fac h1)" for eh
    by (simp add: wfile_handle h0_def)
  then show ?thesis
    by (intro exI [of _ h1]) (simp add: h1_def h0_def new_handler_def Let_def)
qed

lemma handle_two_words:
  assumes len: "length (raw_requestline rq) \<le> 65536"
    and words: "py_split (rstrip_crlf (raw_requestline rq)) = [''GET'', p]"
    and hdr: "header_block rq = HeadersOk"
  shows "\<exists>h. (\<forall>eh. wfile (handle eh fac rq (new_handler d)) = wfile (dispatch eh fac h)) \<and>
           command h = Some ''GET'' \<and> path h = single_slash p \<and>
           request_version h = ''HTTP/0.9'' \<and>
           directory h = d \<and> wfile h = [] \<and> headers_buffer h = [] \<and>
           req_ims h = ims rq \<and> req_if_none_match h = if_none_match rq"
proof -
  have raw: "raw_requestline rq \<noteq> []"
    using words by (auto simp: rstrip_crlf_def py_split_def)
  define h0 where "h0 = (new_handler d)\<lparr>close_connection := True\<rparr>"
  define h1 where "h1 =
     (let h = h0\<lparr>command := None, request_version := default_request_version,
                  close_connection := True, requestline := rstrip_crlf (raw_requestline rq)\<rparr>;
          h2 = h\<lparr>close_connection := True\<rparr>;
          h3 = h2\<lparr>command := Some ''GET'', path := single_slash p\<rparr>;
          h4 = h3\<lparr>req_ims := ims rq, req_if_none_match := if_none_match rq\<rparr>
      in if lower (connection rq) = ''close'' then h4\<lparr>close_connection := True\<rparr> else h4)"
  have "handle_one_request eh fac rq h0 = dispatch eh fac h1" for eh
    using len raw words hdr
    by (simp add: handle_one_request_def parse_request_def parse_headers_def
        Let_def not_http11 h1_def)
  then have "wfile (handle eh fac rq (new_handler d)) = wfile (dispatch eh fac h1)" for eh
    by (simp add: wfile_handle h0_def)
  then show ?thesis
    by (intro exI [of _ h1])
      (simp add: h1_def h0_def new_handler_def Let_def default_request_version_def)
qed


subsection \<open>The two answers of \<^verbatim>\<open>send_head\<close> for a path that is not a directory\<close>

text \<open>
  The first is stated for any \<^verbatim>\<open>end_headers\<close> that writes the buffered lines, then some
  \<open>extra\<close> lines, then the blank line: \<open>extra\<close> is empty for the inherited method and
  the three lines for the override.
\<close>

lemma send_error_404_wfile:
  assumes v: "request_version h \<noteq> ''HTTP/0.9''" and c: "command h \<noteq> Some ''HEAD''"
    and eh: "\<And>h'. request_version h' \<noteq> ''HTTP/0.9'' \<Longrightarrow>
               wfile (eh h') = wfile h' @ concat (headers_buffer h') @ extra @ CRLF"
  shows "wfile (send_error eh fac 404 (Some msg) None h) =
           wfile h @ concat (headers_buffer h) @
           ''HTTP/1.0 404 '' @ msg @ CRLF @
           ''Server: '' @ version_string fac @ CRLF @
           ''Date: '' @ date_now fac @ CRLF @
           ''Connection: close'' @ CRLF @
           ''Content-Type: text/html;charset=utf-8'' @ CRLF @
           ''Content-Length: '' @
              str_nat (length (error_body fac 404 msg (long_message fac 404))) @ CRLF @
           extra @ CRLF @
           error_body fac 404 msg (long_message fac 404)"
proof -
  obtain shortmsg longmsg where sl:
    "(case responses fac 404 of Some sl \<Rightarrow> sl | None \<Rightarrow> (''???'', ''???'')) = (shortmsg, longmsg)"
    by (cases "case responses fac 404 of Some sl \<Rightarrow> sl | None \<Rightarrow> (''???'', ''???'')") auto
  have lm: "long_message fac 404 = longmsg"
    using sl by (auto simp: long_message_def split: option.splits)
  define body where "body = error_body fac 404 msg longmsg"
  define h2 where "h2 = send_header ''Content-Length'' (str_nat (length body))
                       (send_header ''Content-Type'' error_content_type
                         (send_header ''Connection'' ''close''
                           (send_response fac 404 (Some msg) h)))"
  have eq: "send_error eh fac 404 (Some msg) None h =
      (let h3 = eh h2 in if body \<noteq> [] then h3\<lparr>wfile := wfile h3 @ body\<rparr> else h3)"
    using sl c
    by (simp add: send_error_def Let_def h2_def body_def send_header_fields send_response_fields)
  have v2: "request_version h2 \<noteq> ''HTTP/0.9''" and w2: "wfile h2 = wfile h"
    using v by (simp_all add: h2_def send_header_fields send_response_fields)
  have b2: "headers_buffer h2 = headers_buffer h @
       [''HTTP/1.0 404 '' @ msg @ CRLF,
        ''Server: '' @ version_string fac @ CRLF,
        ''Date: '' @ date_now fac @ CRLF,
        ''Connection: close'' @ CRLF,
        ''Content-Type: text/html;charset=utf-8'' @ CRLF,
        ''Content-Length: '' @ str_nat (length body) @ CRLF]"
    using v
    by (simp add: h2_def send_header_fields send_response_fields send_response_buffer
        str_nat_codes error_content_type_def)
  have "wfile (send_error eh fac 404 (Some msg) None h) = wfile (eh h2) @ body"
    unfolding eq by (simp add: Let_def)
  also have "wfile (eh h2) = wfile h @ concat (headers_buffer h2) @ extra @ CRLF"
    using eh [OF v2] w2 by simp
  finally show ?thesis
    unfolding b2 lm body_def by simp
qed

lemma get_missing_wfile:
  assumes v: "request_version h \<noteq> ''HTTP/0.9''"
    and g: "command h = Some ''GET''"
    and hw: "wfile h = []" and hb: "headers_buffer h = []"
    and nd: "\<not> isdir fac (translate_path fac (directory h) (path h))"
    and nf: "open_rb fac (translate_path fac (directory h) (path h)) = Raises_OSError"
    and eh: "\<And>h'. request_version h' \<noteq> ''HTTP/0.9'' \<Longrightarrow>
               wfile (eh h') = wfile h' @ concat (headers_buffer h') @ extra @ CRLF"
  shows "wfile (dispatch eh fac h) = not_found_response fac extra"
proof -
  have "send_head eh fac h = (None, send_error eh fac 404 (Some ''File not found'') None h)"
    using nd nf by (simp add: send_head_def send_head_file_def Let_def)
  then have "dispatch eh fac h = send_error eh fac 404 (Some ''File not found'') None h"
    using g by (simp add: dispatch_def do_GET_def)
  then show ?thesis
    unfolding not_found_response_def
    using send_error_404_wfile [OF v _ eh, of fac "''File not found''"] g hw hb by simp
qed

lemma get_file_wfile:
  assumes v: "request_version h \<noteq> ''HTTP/0.9''"
    and g: "command h = Some ''GET''"
    and hw: "wfile h = []" and hb: "headers_buffer h = []"
    and nd: "\<not> isdir fac (translate_path fac (directory h) (path h))"
    and ns: "\<not> endswith (translate_path fac (directory h) (path h)) ''/''"
    and op: "open_rb fac (translate_path fac (directory h) (path h)) = Opened f"
    and nm: "\<not> not_modified h f"
  shows "wfile (dispatch MyHTTPRequestHandler_end_headers fac h) =
           ''HTTP/1.0 200 '' @ short_message fac 200 @ CRLF @
           ''Server: '' @ version_string fac @ CRLF @
           ''Date: '' @ date_now fac @ CRLF @
           ''Content-type: '' @ guess_type fac (translate_path fac (directory h) (path h)) @ CRLF @
           ''Content-Length: '' @ str_nat (st_size f) @ CRLF @
           ''Last-Modified: '' @ http_date fac (mtime f) @ CRLF @
           cache_headers @ CRLF @
           content f"
proof -
  define p where "p = translate_path fac (directory h) (path h)"
  define h2 where "h2 = send_header ''Last-Modified'' (http_date fac (mtime f))
                    (send_header ''Content-Length'' (str_nat (st_size f))
                      (send_header ''Content-type'' (guess_type fac p)
                        (send_response fac 200 None h)))"
  have "send_head MyHTTPRequestHandler_end_headers fac h =
      (Some (content f), MyHTTPRequestHandler_end_headers h2)"
    using nd ns op nm
    by (simp add: send_head_def send_head_file_def Let_def h2_def p_def [symmetric])
  then have d: "wfile (dispatch MyHTTPRequestHandler_end_headers fac h) =
      wfile (MyHTTPRequestHandler_end_headers h2) @ content f"
    using g by (simp add: dispatch_def do_GET_def)
  have v2: "request_version h2 \<noteq> ''HTTP/0.9''" and w2: "wfile h2 = []"
    using v hw by (simp_all add: h2_def send_header_fields send_response_fields)
  have b2: "headers_buffer h2 =
       [''HTTP/1.0 200 '' @ short_message fac 200 @ CRLF,
        ''Server: '' @ version_string fac @ CRLF,
        ''Date: '' @ date_now fac @ CRLF,
        ''Content-type: '' @ guess_type fac p @ CRLF,
        ''Content-Length: '' @ str_nat (st_size f) @ CRLF,
        ''Last-Modified: '' @ http_date fac (mtime f) @ CRLF]"
    using v hb
    by (simp add: h2_def send_header_fields send_response_fields send_response_buffer str_nat_codes)
  show ?thesis
    unfolding d using v2 w2 by (simp add: my_end_headers_wfile b2 p_def)
qed

text \<open>The same two requests when the handler holds \<^verbatim>\<open>HTTP/0.9\<close>: only the body is sent.\<close>

lemma send_header_http09:
  "request_version h = ''HTTP/0.9'' \<Longrightarrow> headers_buffer (send_header k v h) = headers_buffer h"
  by (simp add: send_header_fields)

lemma my_end_headers_http09:
  "request_version h = ''HTTP/0.9'' \<Longrightarrow> wfile (MyHTTPRequestHandler_end_headers h) = wfile h"
  by (simp add: my_end_headers_wfile)

lemma get_file_http09:
  assumes v: "request_version h = ''HTTP/0.9''"
    and g: "command h = Some ''GET''"
    and nd: "\<not> isdir fac (translate_path fac (directory h) (path h))"
    and ns: "\<not> endswith (translate_path fac (directory h) (path h)) ''/''"
    and op: "open_rb fac (translate_path fac (directory h) (path h)) = Opened f"
    and nm: "\<not> not_modified h f"
  shows "wfile (dispatch MyHTTPRequestHandler_end_headers fac h) = wfile h @ content f"
proof -
  define p where "p = translate_path fac (directory h) (path h)"
  define h2 where "h2 = send_header ''Last-Modified'' (http_date fac (mtime f))
                    (send_header ''Content-Length'' (str_nat (st_size f))
                      (send_header ''Content-type'' (guess_type fac p)
                        (send_response fac 200 None h)))"
  have "send_head MyHTTPRequestHandler_end_headers fac h =
      (Some (content f), MyHTTPRequestHandler_end_headers h2)"
    using nd ns op nm
    by (simp add: send_head_def send_head_file_def Let_def h2_def p_def [symmetric])
  then have d: "wfile (dispatch MyHTTPRequestHandler_end_headers fac h) =
      wfile (MyHTTPRequestHandler_end_headers h2) @ content f"
    using g by (simp add: dispatch_def do_GET_def)
  have "request_version h2 = ''HTTP/0.9''" and "wfile h2 = wfile h"
    using v by (simp_all add: h2_def send_header_fields send_response_fields)
  then show ?thesis
    unfolding d by (simp add: my_end_headers_http09)
qed

lemma get_missing_http09:
  assumes v: "request_version h = ''HTTP/0.9''"
    and g: "command h = Some ''GET''"
    and nd: "\<not> isdir fac (translate_path fac (directory h) (path h))"
    and nf: "open_rb fac (translate_path fac (directory h) (path h)) = Raises_OSError"
  shows "wfile (dispatch MyHTTPRequestHandler_end_headers fac h) =
           wfile h @ error_body fac 404 ''File not found'' (long_message fac 404)"
proof -
  obtain shortmsg longmsg where sl:
    "(case responses fac 404 of Some sl \<Rightarrow> sl | None \<Rightarrow> (''???'', ''???'')) = (shortmsg, longmsg)"
    by (cases "case responses fac 404 of Some sl \<Rightarrow> sl | None \<Rightarrow> (''???'', ''???'')") auto
  have lm: "long_message fac 404 = longmsg"
    using sl by (auto simp: long_message_def split: option.splits)
  define body where "body = error_body fac 404 ''File not found'' longmsg"
  define h2 where "h2 = send_header ''Content-Length'' (str_nat (length body))
                       (send_header ''Content-Type'' error_content_type
                         (send_header ''Connection'' ''close''
                           (send_response fac 404 (Some ''File not found'') h)))"
  have "send_head MyHTTPRequestHandler_end_headers fac h =
      (None, send_error MyHTTPRequestHandler_end_headers fac 404 (Some ''File not found'') None h)"
    using nd nf by (simp add: send_head_def send_head_file_def Let_def)
  then have "dispatch MyHTTPRequestHandler_end_headers fac h =
      send_error MyHTTPRequestHandler_end_headers fac 404 (Some ''File not found'') None h"
    using g by (simp add: dispatch_def do_GET_def)
  moreover have "send_error MyHTTPRequestHandler_end_headers fac 404 (Some ''File not found'') None h =
      (let h3 = MyHTTPRequestHandler_end_headers h2
       in if body \<noteq> [] then h3\<lparr>wfile := wfile h3 @ body\<rparr> else h3)"
    using sl g
    by (simp add: send_error_def Let_def h2_def body_def send_header_fields send_response_fields)
  moreover have "request_version h2 = ''HTTP/0.9''" and "wfile h2 = wfile h"
    using v by (simp_all add: h2_def send_header_fields send_response_fields)
  ultimately show ?thesis
    by (simp add: Let_def my_end_headers_http09 lm body_def)
qed

subsection \<open>The concrete requests\<close>

lemma rstrip_crlf_line:
  assumes "s \<noteq> []" "\<not> is_space (last s)"
  shows "rstrip_crlf (s @ CRLF) = s"
proof -
  obtain s' c where s: "s = s' @ [c]"
    using assms(1) by (cases s rule: rev_cases) auto
  have "c \<noteq> CHR 0x0D" "c \<noteq> CHR 0x0A"
    using assms(2) by (auto simp: s is_space_def)
  then show ?thesis
    by (simp add: rstrip_crlf_def CRLF_def s)
qed

lemma words_from_word:
  "list_all (\<lambda>c. \<not> is_space c) s \<Longrightarrow> words_from w (s @ t) = words_from (w @ s) t"
  by (induction s arbitrary: w) simp_all

lemma GET_letters: "is_space CHR '' ''" "\<not> is_space CHR ''G''" "\<not> is_space CHR ''E''"
  "\<not> is_space CHR ''T''"
  by (simp_all add: is_space_def)

lemma words_get_request:
  assumes "list_all (\<lambda>c. \<not> is_space c) p" "p \<noteq> []" "list_all (\<lambda>c. \<not> is_space c) v" "v \<noteq> []"
  shows "py_split (rstrip_crlf (raw_requestline (get_request p v))) = [''GET'', p, v]"
proof -
  have lv: "\<not> is_space (last v)"
    using assms by (auto simp: list_all_iff)
  have "rstrip_crlf (raw_requestline (get_request p v)) = ''GET '' @ p @ '' '' @ v"
    using rstrip_crlf_line [of "''GET '' @ p @ '' '' @ v"] assms(4) lv
    by (simp add: get_request_def)
  moreover have "words_from [] (''GET '' @ p @ '' '' @ v) = [''GET'', p, v]"
    using words_from_word [OF assms(1), of "[]" "'' '' @ v"]
      words_from_word [OF assms(3), of "[]" "[]"] assms(2,4) GET_letters
    by simp
  ultimately show ?thesis
    by (simp add: py_split_def)
qed

lemma words_simple_request:
  assumes "list_all (\<lambda>c. \<not> is_space c) p" "p \<noteq> []"
  shows "py_split (rstrip_crlf (raw_requestline (simple_request p))) = [''GET'', p]"
proof -
  have lp: "\<not> is_space (last p)"
    using assms by (auto simp: list_all_iff)
  have "rstrip_crlf (raw_requestline (simple_request p)) = ''GET '' @ p"
    using rstrip_crlf_line [of "''GET '' @ p"] assms(2) lp
    by (simp add: simple_request_def)
  moreover have "words_from [] (''GET '' @ p) = [''GET'', p]"
    using words_from_word [OF assms(1), of "[]" "[]"] assms(2) GET_letters
    by simp
  ultimately show ?thesis
    by (simp add: py_split_def)
qed

lemma words_index:
  "py_split (rstrip_crlf (raw_requestline (get_request ''/index.html'' ''HTTP/1.1''))) =
     [''GET'', ''/index.html'', ''HTTP/1.1'']"
  "py_split (rstrip_crlf (raw_requestline (get_request ''/missing.html'' ''HTTP/1.1''))) =
     [''GET'', ''/missing.html'', ''HTTP/1.1'']"
  "py_split (rstrip_crlf (raw_requestline (get_request ''/index.html'' ''HTTP/2.0''))) =
     [''GET'', ''/index.html'', ''HTTP/2.0'']"
  by (rule words_get_request; simp add: is_space_def)+

lemma words_simple:
  "py_split (rstrip_crlf (raw_requestline (simple_request ''/index.html''))) =
     [''GET'', ''/index.html'']"
  "py_split (rstrip_crlf (raw_requestline (simple_request ''/missing.html''))) =
     [''GET'', ''/missing.html'']"
  by (rule words_simple_request; simp add: is_space_def)+

lemma version_numbers:
  "version_number ''HTTP/1.1'' = Some (1, 1)"
  "version_number ''HTTP/2.0'' = Some (2, 0)"
  by (simp_all add: version_number_def startswith_def py_isdigit_def py_int_def
      is_ascii_digit_def digit_value_def)

lemma short_lines:
  "length p \<le> 100 \<Longrightarrow> length v \<le> 100 \<Longrightarrow> length (raw_requestline (get_request p v)) \<le> 65536"
  "length p \<le> 100 \<Longrightarrow> length (raw_requestline (simple_request p)) \<le> 65536"
  by (simp_all add: get_request_def simple_request_def CRLF_def)

lemma request_fields:
  "header_block (get_request p v) = HeadersOk" "ims (get_request p v) = Absent"
  "if_none_match (get_request p v) = False"
  "header_block (simple_request p) = HeadersOk" "ims (simple_request p) = Absent"
  "if_none_match (simple_request p) = False"
  by (simp_all add: get_request_def simple_request_def)

lemma site_fields:
  "translate_path site d p = d @ p"
  "isdir site p = (p = ''/srv/app/'')"
  "open_rb site ''/srv/app/index.html'' = Opened \<lparr>content = ''<h1>hi</h1>'', st_size = 11, mtime = 1000\<rparr>"
  "open_rb site ''/srv/app/missing.html'' = Raises_OSError"
  "guess_type site p = ''text/html''"
  "version_string site = ''SimpleHTTP/0.6 Python/3.11.10''"
  "date_now site = ''Tue, 03 Nov 2026 14:00:00 GMT''"
  "http_date site t = ''Thu, 01 Jan 1970 00:16:40 GMT''"
  "short_message site 200 = ''OK''"
  "short_message site 304 = ''Not Modified''"
  "error_body site 404 m e = ''<p>Error code: 404</p>''"
  by (simp_all add: site_def short_message_def str_nat_codes)

lemma single_slash_requests:
  "single_slash ''/index.html'' = ''/index.html''"
  "single_slash ''/missing.html'' = ''/missing.html''"
  by (simp_all add: single_slash_def startswith_def)

lemma version_seen_requests:
  "version_seen (get_request ''/index.html'' ''HTTP/1.1'') = ''HTTP/1.1''"
  "version_seen (get_request ''/missing.html'' ''HTTP/1.1'') = ''HTTP/1.1''"
  "version_seen (get_request ''/index.html'' ''HTTP/2.0'') = ''HTTP/0.9''"
  "version_seen (simple_request ''/index.html'') = ''HTTP/0.9''"
  "version_seen (simple_request ''/missing.html'') = ''HTTP/0.9''"
  using short_lines(1) [of "''/index.html''" "''HTTP/1.1''"]
    short_lines(1) [of "''/missing.html''" "''HTTP/1.1''"]
    short_lines(1) [of "''/index.html''" "''HTTP/2.0''"]
    short_lines(2) [of "''/index.html''"] short_lines(2) [of "''/missing.html''"]
  by (simp_all add: version_seen_def words_index words_simple version_numbers Let_def)

text \<open>A path that \<^verbatim>\<open>open\<close> refuses with \<^verbatim>\<open>ValueError\<close>: the handler ends without an answer.\<close>

lemma get_open_value_error:
  assumes g: "command h = Some ''GET''"
    and nd: "\<not> isdir fac (translate_path fac (directory h) (path h))"
    and ns: "\<not> endswith (translate_path fac (directory h) (path h)) ''/''"
    and op: "open_rb fac (translate_path fac (directory h) (path h)) = Raises_ValueError"
  shows "wfile (dispatch eh fac h) = wfile h"
  using assms by (simp add: dispatch_def do_GET_def send_head_def send_head_file_def Let_def)

text \<open>The answer to \<^verbatim>\<open>GET /index.html HTTP/1.1\<close> at the concrete site is not empty.\<close>

lemma index_response_not_empty:
  "MyHTTPRequestHandler site ''/srv/app'' (get_request ''/index.html'' ''HTTP/1.1'') \<noteq> []"
proof -
  define rq where "rq = get_request ''/index.html'' ''HTTP/1.1''"
  define f where "f = \<lparr>content = ''<h1>hi</h1>'', st_size = 11, mtime = 1000\<rparr>"
  have len: "length (raw_requestline rq) \<le> 65536"
    unfolding rq_def by (rule short_lines) simp_all
  obtain h where h: "\<And>eh. wfile (handle eh site rq (new_handler ''/srv/app'')) = wfile (dispatch eh site h)"
    "command h = Some ''GET''" "path h = ''/index.html''" "request_version h = ''HTTP/1.1''"
    "directory h = ''/srv/app''" "wfile h = []" "headers_buffer h = []"
    "req_ims h = Absent" "req_if_none_match h = False"
    using handle_three_words [OF len, of "''GET''" "''/index.html''" "''HTTP/1.1''" 1 1 site "''/srv/app''"]
    by (auto simp: rq_def words_index version_numbers request_fields single_slash_requests)
  have "wfile (dispatch MyHTTPRequestHandler_end_headers site h) \<noteq> []"
    by (subst get_file_wfile [where f = f])
      (simp_all add: h site_fields f_def not_modified_def endswith_def)
  then show ?thesis
    by (simp add: MyHTTPRequestHandler_def h(1) rq_def [symmetric])
qed

section \<open>Properties of the path functions\<close>


















section \<open>Properties of the runs of \<^verbatim>\<open>main\<close>\<close>

lemma serve_forever_eq:
  "serve_forever hc ins s =
     (stopped_by ins, s\<lparr>trace := trace s @ map (\<lambda>rq. Response rq (hc (cwd s) rq)) (served ins)\<rparr>)"
  by (induction hc ins s rule: serve_forever.induct) (simp_all add: emit_def)

lemma stopped_by_append:
  "stopped_by (map Request rqs @ Raise x # rest) = Raised x"
  by (induction rqs) simp_all

lemma served_append:
  "served (map Request rqs @ Raise x # rest) = rqs"
  by (induction rqs) simp_all

lemma port_str: "port_str = ''8000''"
  by (simp add: port_str_def str_int_def PORT_def str_nat.simps digit_char_def)

lemmas main_defs = main_def with_body_def try_serve_def try_browser_def webbrowser_open_def
  TCPServer_def chdir_script_def py_print_def emit_def serve_forever_eq Let_def

lemma main_raises_at_chdir:
  assumes "fault e AtChdir = Some x"
  shows "main e = (Raised x, \<lparr>cwd = invocation_cwd e, trace = []\<rparr>)"
  using assms by (simp add: main_defs port_str script_dir_def startup_def PORT_def)

lemma main_raises_at_print1:
  assumes "fault e AtChdir = None" "fault e (AtPrint 1) = Some x"
  shows "main e = (Raised x, \<lparr>cwd = script_dir e, trace = take 1 (startup e)\<rparr>)"
  using assms by (simp add: main_defs port_str script_dir_def startup_def PORT_def)

lemma main_raises_at_print2:
  assumes "fault e AtChdir = None" "fault e (AtPrint 1) = None" "fault e (AtPrint 2) = Some x"
  shows "main e = (Raised x, \<lparr>cwd = script_dir e, trace = take 2 (startup e)\<rparr>)"
  using assms by (simp add: main_defs port_str script_dir_def startup_def PORT_def)

lemma main_raises_at_bind:
  assumes "fault e AtChdir = None" "fault e (AtPrint 1) = None" "fault e (AtPrint 2) = None" "fault e AtBind = Some x"
  shows "main e = (Raised x, \<lparr>cwd = script_dir e, trace = take 3 (startup e) @ [Bind '''' 8000, Close]\<rparr>)"
  using assms by (simp add: main_defs port_str script_dir_def startup_def PORT_def)

lemma main_raises_at_print3:
  assumes "fault e AtChdir = None" "fault e (AtPrint 1) = None" "fault e (AtPrint 2) = None" "fault e AtBind = None" "fault e (AtPrint 3) = Some x"
  shows "main e = (Raised x, \<lparr>cwd = script_dir e, trace = take 5 (startup e) @ [Close]\<rparr>)"
  using assms by (simp add: main_defs port_str script_dir_def startup_def PORT_def)

lemma main_raises_at_print4:
  assumes "fault e AtChdir = None" "fault e (AtPrint 1) = None" "fault e (AtPrint 2) = None" "fault e AtBind = None" "fault e (AtPrint 3) = None" "fault e (AtPrint 4) = Some x"
  shows "main e = (Raised x, \<lparr>cwd = script_dir e, trace = take 6 (startup e) @ [Close]\<rparr>)"
  using assms by (simp add: main_defs port_str script_dir_def startup_def PORT_def)

lemma main_raises_at_print5:
  assumes "fault e AtChdir = None" "fault e (AtPrint 1) = None" "fault e (AtPrint 2) = None" "fault e AtBind = None" "fault e (AtPrint 3) = None" "fault e (AtPrint 4) = None" "fault e (AtPrint 5) = Some x"
  shows "main e = (Raised x, \<lparr>cwd = script_dir e, trace = take 7 (startup e) @ [Close]\<rparr>)"
  using assms by (simp add: main_defs port_str script_dir_def startup_def PORT_def)

lemma main_raises_at_print6:
  assumes "fault e AtChdir = None" "fault e (AtPrint 1) = None" "fault e (AtPrint 2) = None" "fault e AtBind = None" "fault e (AtPrint 3) = None" "fault e (AtPrint 4) = None" "fault e (AtPrint 5) = None" "fault e (AtPrint 6) = Some x"
  shows "main e = (Raised x, \<lparr>cwd = script_dir e, trace = take 8 (startup e) @ [Close]\<rparr>)"
  using assms by (simp add: main_defs port_str script_dir_def startup_def PORT_def)

lemma main_raises_at_print7:
  assumes "fault e AtChdir = None" "fault e (AtPrint 1) = None" "fault e (AtPrint 2) = None" "fault e AtBind = None" "fault e (AtPrint 3) = None" "fault e (AtPrint 4) = None" "fault e (AtPrint 5) = None" "fault e (AtPrint 6) = None" "fault e (AtPrint 7) = Some x"
  shows "main e = (Raised x, \<lparr>cwd = script_dir e, trace = take 9 (startup e) @ [Close]\<rparr>)"
  using assms by (simp add: main_defs port_str script_dir_def startup_def PORT_def)

lemma try_browser_eq:
  "try_browser e s = (Done, emit (Browser ''http://localhost:8000/index.html'') s)"
  by (simp add: try_browser_def webbrowser_open_def port_str split: option.splits)

lemma seq_single: "seq [c] s = c s"
  by (cases "c s"; cases "fst (c s)") auto

lemma seq_more:
  "seq (c # c' # cs) s = (case c s of (Done, s1) \<Rightarrow> seq (c' # cs) s1 | (r, s1) \<Rightarrow> (r, s1))"
  by simp

lemma before_serving:
  assumes "fault e AtChdir = None" "fault e (AtPrint 1) = None" "fault e (AtPrint 2) = None" "fault e AtBind = None" "fault e (AtPrint 3) = None" "fault e (AtPrint 4) = None" "fault e (AtPrint 5) = None" "fault e (AtPrint 6) = None" "fault e (AtPrint 7) = None"
  shows "main e =
     (case try_serve e \<lparr>cwd = script_dir e, trace = startup e\<rparr> of
        (Blocked, s2) \<Rightarrow> (Blocked, s2)
      | (r, s2) \<Rightarrow> (r, emit Close s2))"
  using assms
  by (simp add: main_def with_body_def try_browser_eq TCPServer_def chdir_script_def
      py_print_def emit_def Let_def port_str script_dir_def startup_def PORT_def
      seq_single seq_more del: seq.simps)

lemma main_serving:
  assumes "fault e AtChdir = None" "fault e (AtPrint 1) = None" "fault e (AtPrint 2) = None" "fault e AtBind = None" "fault e (AtPrint 3) = None" "fault e (AtPrint 4) = None" "fault e (AtPrint 5) = None" "fault e (AtPrint 6) = None" "fault e (AtPrint 7) = None"
  shows "main e =
     (case stopped_by (inputs e) of
        Blocked \<Rightarrow> (Blocked, \<lparr>cwd = script_dir e, trace = startup e @ answers e\<rparr>)
      | Raised x \<Rightarrow>
          (if x = KeyboardInterrupt
           then (Done, \<lparr>cwd = script_dir e,
                        trace = startup e @ answers e @ [Print (LF @ ''Server stopped.''), Close]\<rparr>)
           else (Raised x, \<lparr>cwd = script_dir e, trace = startup e @ answers e @ [Close]\<rparr>))
      | Done \<Rightarrow> (Done, \<lparr>cwd = script_dir e, trace = startup e @ answers e @ [Close]\<rparr>))"
proof (cases "stopped_by (inputs e)")
  case Done
  then show ?thesis
    unfolding before_serving [OF assms]
    by (simp add: try_serve_def serve_forever_eq answers_def emit_def)
next
  case (Raised x)
  then show ?thesis
    unfolding before_serving [OF assms]
    by (simp add: try_serve_def serve_forever_eq answers_def emit_def)
next
  case Blocked
  then show ?thesis
    unfolding before_serving [OF assms]
    by (simp add: try_serve_def serve_forever_eq answers_def emit_def)
qed

lemma main_cases:
  obtains
    (f0) x where "fault e AtChdir = Some x"
      "main e = (Raised x, \<lparr>cwd = invocation_cwd e, trace = []\<rparr>)"
  |
    (f1) x where "fault e AtChdir = None" "fault e (AtPrint 1) = Some x"
      "main e = (Raised x, \<lparr>cwd = script_dir e, trace = take 1 (startup e)\<rparr>)"
  |
    (f2) x where "fault e AtChdir = None" "fault e (AtPrint 1) = None" "fault e (AtPrint 2) = Some x"
      "main e = (Raised x, \<lparr>cwd = script_dir e, trace = take 2 (startup e)\<rparr>)"
  |
    (f3) x where "fault e AtChdir = None" "fault e (AtPrint 1) = None" "fault e (AtPrint 2) = None" "fault e AtBind = Some x"
      "main e = (Raised x, \<lparr>cwd = script_dir e, trace = take 3 (startup e) @ [Bind '''' 8000, Close]\<rparr>)"
  |
    (f4) x where "fault e AtChdir = None" "fault e (AtPrint 1) = None" "fault e (AtPrint 2) = None" "fault e AtBind = None" "fault e (AtPrint 3) = Some x"
      "main e = (Raised x, \<lparr>cwd = script_dir e, trace = take 5 (startup e) @ [Close]\<rparr>)"
  |
    (f5) x where "fault e AtChdir = None" "fault e (AtPrint 1) = None" "fault e (AtPrint 2) = None" "fault e AtBind = None" "fault e (AtPrint 3) = None" "fault e (AtPrint 4) = Some x"
      "main e = (Raised x, \<lparr>cwd = script_dir e, trace = take 6 (startup e) @ [Close]\<rparr>)"
  |
    (f6) x where "fault e AtChdir = None" "fault e (AtPrint 1) = None" "fault e (AtPrint 2) = None" "fault e AtBind = None" "fault e (AtPrint 3) = None" "fault e (AtPrint 4) = None" "fault e (AtPrint 5) = Some x"
      "main e = (Raised x, \<lparr>cwd = script_dir e, trace = take 7 (startup e) @ [Close]\<rparr>)"
  |
    (f7) x where "fault e AtChdir = None" "fault e (AtPrint 1) = None" "fault e (AtPrint 2) = None" "fault e AtBind = None" "fault e (AtPrint 3) = None" "fault e (AtPrint 4) = None" "fault e (AtPrint 5) = None" "fault e (AtPrint 6) = Some x"
      "main e = (Raised x, \<lparr>cwd = script_dir e, trace = take 8 (startup e) @ [Close]\<rparr>)"
  |
    (f8) x where "fault e AtChdir = None" "fault e (AtPrint 1) = None" "fault e (AtPrint 2) = None" "fault e AtBind = None" "fault e (AtPrint 3) = None" "fault e (AtPrint 4) = None" "fault e (AtPrint 5) = None" "fault e (AtPrint 6) = None" "fault e (AtPrint 7) = Some x"
      "main e = (Raised x, \<lparr>cwd = script_dir e, trace = take 9 (startup e) @ [Close]\<rparr>)"
  | (serving) "fault e AtChdir = None" "fault e (AtPrint 1) = None" "fault e (AtPrint 2) = None" "fault e AtBind = None" "fault e (AtPrint 3) = None" "fault e (AtPrint 4) = None" "fault e (AtPrint 5) = None" "fault e (AtPrint 6) = None" "fault e (AtPrint 7) = None"
proof (cases "fault e AtChdir")
  case (Some x)
  then show ?thesis using that(1) [of x] main_raises_at_chdir [of e x]  by simp
next
  case n0: None
  show ?thesis
  proof (cases "fault e (AtPrint 1)")
    case (Some x)
    then show ?thesis using that(2) [of x] main_raises_at_print1 [of e x] n0 by simp
  next
    case n1: None
    show ?thesis
    proof (cases "fault e (AtPrint 2)")
      case (Some x)
      then show ?thesis using that(3) [of x] main_raises_at_print2 [of e x] n0 n1 by simp
    next
      case n2: None
      show ?thesis
      proof (cases "fault e AtBind")
        case (Some x)
        then show ?thesis using that(4) [of x] main_raises_at_bind [of e x] n0 n1 n2 by simp
      next
        case n3: None
        show ?thesis
        proof (cases "fault e (AtPrint 3)")
          case (Some x)
          then show ?thesis using that(5) [of x] main_raises_at_print3 [of e x] n0 n1 n2 n3 by simp
        next
          case n4: None
          show ?thesis
          proof (cases "fault e (AtPrint 4)")
            case (Some x)
            then show ?thesis using that(6) [of x] main_raises_at_print4 [of e x] n0 n1 n2 n3 n4 by simp
          next
            case n5: None
            show ?thesis
            proof (cases "fault e (AtPrint 5)")
              case (Some x)
              then show ?thesis using that(7) [of x] main_raises_at_print5 [of e x] n0 n1 n2 n3 n4 n5 by simp
            next
              case n6: None
              show ?thesis
              proof (cases "fault e (AtPrint 6)")
                case (Some x)
                then show ?thesis using that(8) [of x] main_raises_at_print6 [of e x] n0 n1 n2 n3 n4 n5 n6 by simp
              next
                case n7: None
                show ?thesis
                proof (cases "fault e (AtPrint 7)")
                  case (Some x)
                  then show ?thesis using that(9) [of x] main_raises_at_print7 [of e x] n0 n1 n2 n3 n4 n5 n6 n7 by simp
                next
                  case n8: None
                  show ?thesis
                  using that(10) n0 n1 n2 n3 n4 n5 n6 n7 n8 by simp
                qed
              qed
            qed
          qed
        qed
      qed
    qed
  qed
qed

lemma main_cong:
  assumes f: "\<And>p. p \<noteq> AtBrowser \<Longrightarrow> fault e1 p = fault e2 p"
    and i: "inputs e1 = inputs e2" and w: "world e1 = world e2"
    and sf: "script_file e1 = script_file e2" and ic: "invocation_cwd e1 = invocation_cwd e2"
    and gc: "getcwd_in e1 = getcwd_in e2"
  shows "main e1 = main e2"
proof -
  have 1: "chdir_script e1 = chdir_script e2"
    by (simp add: fun_eq_iff chdir_script_def f sf gc cong: option.case_cong)
  have 2: "py_print e1 = py_print e2"
    by (simp add: fun_eq_iff py_print_def f)
  have 3: "TCPServer e1 = TCPServer e2"
    by (simp add: fun_eq_iff TCPServer_def f)
  have 4: "try_browser e1 = try_browser e2"
    by (simp add: fun_eq_iff try_browser_eq)
  have 5: "try_serve e1 = try_serve e2"
    by (simp add: fun_eq_iff try_serve_def i w)
  show ?thesis
    unfolding main_def with_body_def 1 2 3 4 5 ic ..
qed

lemma binds_app: "binds (xs @ ys) = binds xs @ binds ys"
  by (induction xs rule: binds.induct) simp_all

lemma binds_answers: "binds (answers e) = []"
proof -
  have "binds (map (\<lambda>rq. Response rq (g rq)) rqs) = []" for g and rqs :: "request list"
    by (induction rqs) simp_all
  then show ?thesis unfolding answers_def .
qed



lemma bal_answers: "browser_after_listen b (answers e)"
proof -
  have "browser_after_listen b (map (\<lambda>rq. Response rq (g rq)) rqs)" for g and rqs :: "request list"
    by (induction rqs) simp_all
  then show ?thesis unfolding answers_def .
qed

lemma bal_append:
  "browser_after_listen b (xs @ ys) =
     (browser_after_listen b xs \<and> browser_after_listen (b \<or> Listen \<in> set xs) ys)"
  by (induction b xs rule: browser_after_listen.induct) auto



section \<open>The claims\<close>

subsection \<open>The response headers\<close>

text \<open>
  Claim C1, as amended. When the handler's \<^verbatim>\<open>end_headers\<close> runs while the handler holds a
  request version other than \<^verbatim>\<open>HTTP/0.9\<close>, it writes the header lines the inherited
  handler has buffered for the response, then exactly \<^verbatim>\<open>Cache-Control: no-cache, no-store,
  must-revalidate\<close>, \<^verbatim>\<open>Pragma: no-cache\<close> and \<^verbatim>\<open>Expires: 0\<close>, then the blank line; when the
  handler holds \<^verbatim>\<open>HTTP/0.9\<close> it writes nothing. The version the handler holds when it
  answers is read off the request line by \<open>version_seen\<close>: it differs from \<^verbatim>\<open>HTTP/0.9\<close>
  for a line of more than 65536 bytes and for a line of three words or more whose last
  word is a well-formed version below 2.0 other than \<^verbatim>\<open>HTTP/0.9\<close> itself. For such a
  request the response is the response of the inherited handler with the three lines put
  after its headers, unless the handler ends before it writes anything and both responses
  are empty. For every other request (a line of fewer than three words, a malformed
  version, a version from 2.0 on) the response is the one of the inherited handler, byte
  for byte: it has no status line and no header lines, and the three lines are not sent.
\<close>

theorem cache_headers_appended:
  "(request_version h \<noteq> ''HTTP/0.9'' \<longrightarrow>
      wfile (MyHTTPRequestHandler_end_headers h) =
        wfile h @ concat (headers_buffer h) @
        ''Cache-Control: no-cache, no-store, must-revalidate'' @ CRLF @
        ''Pragma: no-cache'' @ CRLF @
        ''Expires: 0'' @ CRLF @
        CRLF) \<and>
   (request_version h = ''HTTP/0.9'' \<longrightarrow>
      wfile (MyHTTPRequestHandler_end_headers h) = wfile h) \<and>
   (version_seen rq \<noteq> ''HTTP/0.9'' \<longrightarrow>
      (MyHTTPRequestHandler fac d rq = [] \<and> SimpleHTTPRequestHandler fac d rq = []) \<or>
      (\<exists>base_headers body.
         SimpleHTTPRequestHandler fac d rq = base_headers @ CRLF @ body \<and>
         MyHTTPRequestHandler fac d rq =
           base_headers @
           ''Cache-Control: no-cache, no-store, must-revalidate'' @ CRLF @
           ''Pragma: no-cache'' @ CRLF @
           ''Expires: 0'' @ CRLF @
           CRLF @ body)) \<and>
   (version_seen rq = ''HTTP/0.9'' \<longrightarrow>
      MyHTTPRequestHandler fac d rq = SimpleHTTPRequestHandler fac d rq)"
proof (intro conjI impI)
  assume "request_version h \<noteq> ''HTTP/0.9''"
  then show "wfile (MyHTTPRequestHandler_end_headers h) =
        wfile h @ concat (headers_buffer h) @
        ''Cache-Control: no-cache, no-store, must-revalidate'' @ CRLF @
        ''Pragma: no-cache'' @ CRLF @
        ''Expires: 0'' @ CRLF @
        CRLF"
    by (simp add: my_end_headers_wfile cache_headers_def)
next
  assume "request_version h = ''HTTP/0.9''"
  then show "wfile (MyHTTPRequestHandler_end_headers h) = wfile h"
    by (rule my_end_headers_http09)
next
  assume "version_seen rq \<noteq> ''HTTP/0.9''"
  from response_form [OF this, of fac d]
  show "(MyHTTPRequestHandler fac d rq = [] \<and> SimpleHTTPRequestHandler fac d rq = []) \<or>
      (\<exists>base_headers body.
         SimpleHTTPRequestHandler fac d rq = base_headers @ CRLF @ body \<and>
         MyHTTPRequestHandler fac d rq =
           base_headers @
           ''Cache-Control: no-cache, no-store, must-revalidate'' @ CRLF @
           ''Pragma: no-cache'' @ CRLF @
           ''Expires: 0'' @ CRLF @
           CRLF @ body)"
    by (simp add: cache_headers_def)
next
  assume "version_seen rq = ''HTTP/0.9''"
  then show "MyHTTPRequestHandler fac d rq = SimpleHTTPRequestHandler fac d rq"
    by (rule response_same)
qed

text \<open>
  The theorem at a handler that holds \<^verbatim>\<open>HTTP/1.1\<close> and has buffered the status line and
  the two headers of a 200 response, at the request \<^verbatim>\<open>GET /index.html HTTP/1.1\<close>, and at
  the request \<^verbatim>\<open>GET /index.html HTTP/2.0\<close>, which is answered as the inherited handler
  answers it.
\<close>

theorem cache_headers_appended_witness:
  "wfile (MyHTTPRequestHandler_end_headers
      (send_response site 200 None ((new_handler ''/srv/app'')\<lparr>request_version := ''HTTP/1.1''\<rparr>))) =
     ''HTTP/1.0 200 OK'' @ CRLF @
     ''Server: SimpleHTTP/0.6 Python/3.11.10'' @ CRLF @
     ''Date: Tue, 03 Nov 2026 14:00:00 GMT'' @ CRLF @
     ''Cache-Control: no-cache, no-store, must-revalidate'' @ CRLF @
     ''Pragma: no-cache'' @ CRLF @
     ''Expires: 0'' @ CRLF @
     CRLF \<and>
   wfile (MyHTTPRequestHandler_end_headers
      (send_response site 200 None ((new_handler ''/srv/app'')\<lparr>request_version := ''HTTP/0.9''\<rparr>))) = [] \<and>
   version_seen (get_request ''/index.html'' ''HTTP/1.1'') \<noteq> ''HTTP/0.9'' \<and>
   (\<exists>base_headers body.
      SimpleHTTPRequestHandler site ''/srv/app'' (get_request ''/index.html'' ''HTTP/1.1'') =
        base_headers @ CRLF @ body \<and>
      MyHTTPRequestHandler site ''/srv/app'' (get_request ''/index.html'' ''HTTP/1.1'') =
        base_headers @
        ''Cache-Control: no-cache, no-store, must-revalidate'' @ CRLF @
        ''Pragma: no-cache'' @ CRLF @
        ''Expires: 0'' @ CRLF @
        CRLF @ body) \<and>
   version_seen (get_request ''/index.html'' ''HTTP/2.0'') = ''HTTP/0.9'' \<and>
   MyHTTPRequestHandler site ''/srv/app'' (get_request ''/index.html'' ''HTTP/2.0'') =
     SimpleHTTPRequestHandler site ''/srv/app'' (get_request ''/index.html'' ''HTTP/2.0'')"
proof -
  define h where "h = send_response site 200 None
      ((new_handler ''/srv/app'')\<lparr>request_version := ''HTTP/1.1''\<rparr>)"
  define h' where "h' = send_response site 200 None
      ((new_handler ''/srv/app'')\<lparr>request_version := ''HTTP/0.9''\<rparr>)"
  have v: "request_version h \<noteq> ''HTTP/0.9''" and w: "wfile h = []"
    by (simp_all add: h_def send_response_fields new_handler_def)
  have v': "request_version h' = ''HTTP/0.9''" and w': "wfile h' = []"
    by (simp_all add: h'_def send_response_fields new_handler_def)
  have b: "headers_buffer h =
      [''HTTP/1.0 200 OK'' @ CRLF,
       ''Server: SimpleHTTP/0.6 Python/3.11.10'' @ CRLF,
       ''Date: Tue, 03 Nov 2026 14:00:00 GMT'' @ CRLF]"
    by (simp add: h_def send_response_buffer new_handler_def str_nat_codes site_fields)
  have 1: "wfile (MyHTTPRequestHandler_end_headers h) =
     ''HTTP/1.0 200 OK'' @ CRLF @
     ''Server: SimpleHTTP/0.6 Python/3.11.10'' @ CRLF @
     ''Date: Tue, 03 Nov 2026 14:00:00 GMT'' @ CRLF @
     ''Cache-Control: no-cache, no-store, must-revalidate'' @ CRLF @
     ''Pragma: no-cache'' @ CRLF @
     ''Expires: 0'' @ CRLF @
     CRLF"
    using cache_headers_appended [of h] v by (simp add: w b)
  have 2: "wfile (MyHTTPRequestHandler_end_headers h') = []"
    using cache_headers_appended [of h'] v' by (simp add: w')
  have 3: "\<exists>base_headers body.
      SimpleHTTPRequestHandler site ''/srv/app'' (get_request ''/index.html'' ''HTTP/1.1'') =
        base_headers @ CRLF @ body \<and>
      MyHTTPRequestHandler site ''/srv/app'' (get_request ''/index.html'' ''HTTP/1.1'') =
        base_headers @
        ''Cache-Control: no-cache, no-store, must-revalidate'' @ CRLF @
        ''Pragma: no-cache'' @ CRLF @
        ''Expires: 0'' @ CRLF @
        CRLF @ body"
    using cache_headers_appended [of _ "get_request ''/index.html'' ''HTTP/1.1''" site "''/srv/app''"]
      index_response_not_empty
    by (simp add: version_seen_requests)
  have 4: "MyHTTPRequestHandler site ''/srv/app'' (get_request ''/index.html'' ''HTTP/2.0'') =
     SimpleHTTPRequestHandler site ''/srv/app'' (get_request ''/index.html'' ''HTTP/2.0'')"
    using cache_headers_appended [of _ "get_request ''/index.html'' ''HTTP/2.0''" site "''/srv/app''"]
    by (simp add: version_seen_requests)
  show ?thesis
    using 1 2 3 4 unfolding h_def h'_def by (simp add: version_seen_requests)
qed

text \<open>
  Claim C1 as stated fails for a request line without a version, \<^verbatim>\<open>GET /index.html\<close>:
  the handler holds \<^verbatim>\<open>HTTP/0.9\<close>, for which \<^verbatim>\<open>send_header\<close> and \<^verbatim>\<open>end_headers\<close> of the
  inherited class do nothing, and the whole response is the bytes of the file.
\<close>

theorem http09_response_has_no_headers:
  "MyHTTPRequestHandler site ''/srv/app'' (simple_request ''/index.html'') = ''<h1>hi</h1>''"
proof -
  define rq where "rq = simple_request ''/index.html''"
  define f where "f = \<lparr>content = ''<h1>hi</h1>'', st_size = 11, mtime = 1000\<rparr>"
  have len: "length (raw_requestline rq) \<le> 65536"
    unfolding rq_def by (rule short_lines) simp
  obtain h where h: "\<And>eh. wfile (handle eh site rq (new_handler ''/srv/app'')) = wfile (dispatch eh site h)"
    "command h = Some ''GET''" "path h = ''/index.html''" "request_version h = ''HTTP/0.9''"
    "directory h = ''/srv/app''" "wfile h = []"
    "req_ims h = Absent" "req_if_none_match h = False"
    using handle_two_words [OF len, of "''/index.html''" site "''/srv/app''"]
    by (auto simp: rq_def words_simple request_fields single_slash_requests)
  have "wfile (dispatch MyHTTPRequestHandler_end_headers site h) = wfile h @ content f"
    by (rule get_file_http09) (simp_all add: h site_fields f_def not_modified_def endswith_def)
  then show ?thesis
    by (simp add: MyHTTPRequestHandler_def h(1,6) rq_def [symmetric] f_def)
qed

subsection \<open>A path that is not found\<close>

text \<open>
  Claim C2, as amended. Take a request whose line, of at most 65536 bytes, has the three
  words \<^verbatim>\<open>GET\<close>, a path and a version; the version is well formed, below 2.0 and not
  \<^verbatim>\<open>HTTP/0.9\<close>; the header block is read without error; and at the translated path there
  is no directory and \<^verbatim>\<open>open\<close> fails with an \<^verbatim>\<open>OSError\<close>. Then the response is the 404
  \<^verbatim>\<open>File not found\<close> response of the inherited handler with the three cache headers after
  its headers: the status line, the other headers and the body are those the inherited
  class sends by itself, so the script does not handle the error.
\<close>

theorem get_missing_path_is_404:
  assumes "length (raw_requestline rq) \<le> 65536"
    and "py_split (rstrip_crlf (raw_requestline rq)) = [''GET'', p, v]"
    and "version_number v = Some (major, minor)" and "major < 2" and "v \<noteq> ''HTTP/0.9''"
    and "header_block rq = HeadersOk"
    and "\<not> isdir fac (translate_path fac d (single_slash p))"
    and "open_rb fac (translate_path fac d (single_slash p)) = Raises_OSError"
  shows "MyHTTPRequestHandler fac d rq = not_found_response fac cache_headers \<and>
         SimpleHTTPRequestHandler fac d rq = not_found_response fac []"
proof -
  obtain h where h: "\<And>eh. wfile (handle eh fac rq (new_handler d)) = wfile (dispatch eh fac h)"
    "command h = Some ''GET''" "path h = single_slash p" "request_version h = v"
    "directory h = d" "wfile h = []" "headers_buffer h = []"
    using handle_three_words [OF assms(1,2,3,4,6), of fac d] by blast
  have v: "request_version h \<noteq> ''HTTP/0.9''"
    using assms(5) h(4) by simp
  have nd: "\<not> isdir fac (translate_path fac (directory h) (path h))"
    and nf: "open_rb fac (translate_path fac (directory h) (path h)) = Raises_OSError"
    using assms(7,8) h(3,5) by simp_all
  have "wfile (dispatch MyHTTPRequestHandler_end_headers fac h) = not_found_response fac cache_headers"
    by (rule get_missing_wfile [OF v h(2) h(6) h(7) nd nf]) (simp add: my_end_headers_wfile)
  moreover have "wfile (dispatch base_end_headers fac h) = not_found_response fac []"
    by (rule get_missing_wfile [OF v h(2) h(6) h(7) nd nf]) (simp add: base_end_headers_wfile)
  ultimately show ?thesis
    by (simp add: MyHTTPRequestHandler_def SimpleHTTPRequestHandler_def h(1))
qed

text \<open>The theorem at \<^verbatim>\<open>GET /missing.html HTTP/1.1\<close>, with the response written out.\<close>

theorem get_missing_path_is_404_witness:
  "py_split (rstrip_crlf (raw_requestline (get_request ''/missing.html'' ''HTTP/1.1''))) =
     [''GET'', ''/missing.html'', ''HTTP/1.1''] \<and>
   version_number ''HTTP/1.1'' = Some (1, 1) \<and>
   \<not> isdir site (translate_path site ''/srv/app'' (single_slash ''/missing.html'')) \<and>
   open_rb site (translate_path site ''/srv/app'' (single_slash ''/missing.html'')) = Raises_OSError \<and>
   MyHTTPRequestHandler site ''/srv/app'' (get_request ''/missing.html'' ''HTTP/1.1'') =
     ''HTTP/1.0 404 File not found'' @ CRLF @
     ''Server: SimpleHTTP/0.6 Python/3.11.10'' @ CRLF @
     ''Date: Tue, 03 Nov 2026 14:00:00 GMT'' @ CRLF @
     ''Connection: close'' @ CRLF @
     ''Content-Type: text/html;charset=utf-8'' @ CRLF @
     ''Content-Length: 22'' @ CRLF @
     ''Cache-Control: no-cache, no-store, must-revalidate'' @ CRLF @
     ''Pragma: no-cache'' @ CRLF @
     ''Expires: 0'' @ CRLF @
     CRLF @
     ''<p>Error code: 404</p>''"
proof -
  define rq where "rq = get_request ''/missing.html'' ''HTTP/1.1''"
  have 1: "length (raw_requestline rq) \<le> 65536"
    unfolding rq_def by (rule short_lines) simp_all
  have 2: "py_split (rstrip_crlf (raw_requestline rq)) = [''GET'', ''/missing.html'', ''HTTP/1.1'']"
    and 3: "version_number ''HTTP/1.1'' = Some (1, 1)"
    and 4: "(1::nat) < 2" and 5: "''HTTP/1.1'' \<noteq> ''HTTP/0.9''"
    and 6: "header_block rq = HeadersOk"
    and 7: "\<not> isdir site (translate_path site ''/srv/app'' (single_slash ''/missing.html''))"
    and 8: "open_rb site (translate_path site ''/srv/app'' (single_slash ''/missing.html'')) = Raises_OSError"
    by (simp_all add: rq_def words_index version_numbers request_fields single_slash_requests
        site_fields)
  have "length (error_body site 404 ''File not found'' (long_message site 404)) = 22"
    by (simp add: site_fields)
  then have n: "str_nat (length (error_body site 404 ''File not found'' (long_message site 404))) = ''22''"
    by (simp add: str_nat.simps digit_char_def)
  have "not_found_response site cache_headers =
     ''HTTP/1.0 404 File not found'' @ CRLF @
     ''Server: SimpleHTTP/0.6 Python/3.11.10'' @ CRLF @
     ''Date: Tue, 03 Nov 2026 14:00:00 GMT'' @ CRLF @
     ''Connection: close'' @ CRLF @
     ''Content-Type: text/html;charset=utf-8'' @ CRLF @
     ''Content-Length: 22'' @ CRLF @
     ''Cache-Control: no-cache, no-store, must-revalidate'' @ CRLF @
     ''Pragma: no-cache'' @ CRLF @
     ''Expires: 0'' @ CRLF @
     CRLF @
     ''<p>Error code: 404</p>''"
    unfolding not_found_response_def n
    by (simp add: site_fields cache_headers_def)
  then show ?thesis
    using get_missing_path_is_404 [OF 1 2 3 4 5 6 7 8] 2 3 7 8
    unfolding rq_def [symmetric] by simp
qed

text \<open>
  Claim C2 as stated fails for \<^verbatim>\<open>GET /missing.html\<close> without a version: the response has
  no status line and no header, only the error page.
\<close>

theorem http09_missing_path_has_no_status_line:
  "MyHTTPRequestHandler site ''/srv/app'' (simple_request ''/missing.html'') =
     ''<p>Error code: 404</p>''"
proof -
  define rq where "rq = simple_request ''/missing.html''"
  have len: "length (raw_requestline rq) \<le> 65536"
    unfolding rq_def by (rule short_lines) simp
  obtain h where h: "\<And>eh. wfile (handle eh site rq (new_handler ''/srv/app'')) = wfile (dispatch eh site h)"
    "command h = Some ''GET''" "path h = ''/missing.html''" "request_version h = ''HTTP/0.9''"
    "directory h = ''/srv/app''" "wfile h = []"
    using handle_two_words [OF len, of "''/missing.html''" site "''/srv/app''"]
    by (auto simp: rq_def words_simple request_fields single_slash_requests)
  have "wfile (dispatch MyHTTPRequestHandler_end_headers site h) =
      wfile h @ error_body site 404 ''File not found'' (long_message site 404)"
    by (rule get_missing_http09) (simp_all add: h site_fields)
  then show ?thesis
    by (simp add: MyHTTPRequestHandler_def h(1,6) rq_def [symmetric] site_fields)
qed

subsection \<open>A file that exists\<close>




subsection \<open>Facts about the concrete start\<close>

lemma script_dir_demo: "script_dir demo_env = ''/srv/app''"
  by (simp add: script_dir_def demo_env_def abspath_def isabs_def startswith_def normpath_def
      initial_slashes_def dirname_def rstrip_slash_def Let_def)

lemma startup_demo:
  "startup demo_env =
     [Chdir ''/srv/app'',
      Print ''Starting HTTP server on port 8000'',
      Print ''Serving files from: /srv/app'',
      Bind '''' 8000,
      Listen,
      Print ''Server running at http://localhost:8000/'',
      Print ''Open http://localhost:8000/index.html to view the application'',
      Print ''Open http://localhost:8000/test.html for simple test'',
      Print ''Open http://localhost:8000/debug.html for debugging'',
      Print ''Press Ctrl+C to stop the server'',
      Browser ''http://localhost:8000/index.html'']"
  by (simp add: startup_def script_dir_demo)

lemma demo_fields:
  "fault demo_env = no_fault"
  "inputs demo_env = [Request (get_request ''/index.html'' ''HTTP/1.1''), Raise KeyboardInterrupt]"
  "world demo_env = site"
  "script_file demo_env = ''/srv/app/simple-server.py''"
  "invocation_cwd demo_env = ''/home/dev''"
  "getcwd_in demo_env = (\<lambda>d. d)"
  by (simp_all add: demo_env_def)

lemma script_dir_fault_update: "script_dir (e\<lparr>fault := f\<rparr>) = script_dir e"
  by (simp add: script_dir_def)


subsection \<open>The port is taken\<close>

text \<open>
  Claim C4. When the start reaches the bind and the bind raises (the port is held by
  another process), \<^verbatim>\<open>main\<close> ends at once with that exception, uncaught: the trace holds
  one bind call, on port 8000, followed by the close of the socket; the socket never
  listens, no other port is tried and nothing is served.
\<close>

theorem bind_failure_is_fatal:
  assumes "fault e AtChdir = None" "fault e (AtPrint 1) = None" "fault e (AtPrint 2) = None"
    and "fault e AtBind = Some x"
  shows "main e =
     (Raised x,
      \<lparr>cwd = script_dir e,
       trace = [Chdir (script_dir e),
                Print ''Starting HTTP server on port 8000'',
                Print (''Serving files from: '' @ script_dir e),
                Bind '''' 8000,
                Close]\<rparr>)"
  using main_raises_at_bind [OF assms] by (simp add: startup_def)

theorem bind_failure_is_fatal_witness:
  "main (demo_env\<lparr>fault := no_fault(AtBind := Some (OSError ''[Errno 98] Address already in use''))\<rparr>) =
     (Raised (OSError ''[Errno 98] Address already in use''),
      \<lparr>cwd = ''/srv/app'',
       trace = [Chdir ''/srv/app'',
                Print ''Starting HTTP server on port 8000'',
                Print ''Serving files from: /srv/app'',
                Bind '''' 8000,
                Close]\<rparr>)"
proof -
  define e where
    "e = demo_env\<lparr>fault := no_fault(AtBind := Some (OSError ''[Errno 98] Address already in use''))\<rparr>"
  have 1: "fault e AtChdir = None" and 2: "fault e (AtPrint 1) = None"
    and 3: "fault e (AtPrint 2) = None"
    and 4: "fault e AtBind = Some (OSError ''[Errno 98] Address already in use'')"
    by (simp_all add: e_def no_fault_def)
  have d: "script_dir e = ''/srv/app''"
    by (simp add: e_def script_dir_fault_update script_dir_demo)
  show ?thesis
    using bind_failure_is_fatal [OF 1 2 3 4] unfolding e_def [symmetric] d by simp
qed


subsection \<open>Ctrl+C while serving\<close>

text \<open>
  Claim C5. When the start succeeds (whatever the browser call does) and, after any number
  of requests, \<^verbatim>\<open>KeyboardInterrupt\<close> is raised in the serving loop, the exception is
  caught: \<^verbatim>\<open>main\<close> prints \<^verbatim>\<open>"\nServer stopped."\<close>, closes the server and returns
  normally.
\<close>

theorem interrupt_while_serving_stops_cleanly:
  assumes "fault e AtChdir = None" "\<forall>k \<in> {1..7}. fault e (AtPrint k) = None"
    and "fault e AtBind = None"
    and "inputs e = map Request rqs @ Raise KeyboardInterrupt # rest"
  shows "main e =
     (Done,
      \<lparr>cwd = script_dir e,
       trace = startup e @
               map (\<lambda>rq. Response rq (MyHTTPRequestHandler (world e) (script_dir e) rq)) rqs @
               [Print (LF @ ''Server stopped.''), Close]\<rparr>)"
proof -
  have "fault e (AtPrint 1) = None" "fault e (AtPrint 2) = None" "fault e (AtPrint 3) = None"
    "fault e (AtPrint 4) = None" "fault e (AtPrint 5) = None" "fault e (AtPrint 6) = None"
    "fault e (AtPrint 7) = None"
    using assms(2) by simp_all
  then show ?thesis
    using main_serving [of e] assms(1,3,4)
    by (simp add: stopped_by_append served_append answers_def)
qed

theorem interrupt_while_serving_stops_cleanly_witness:
  "main demo_env =
     (Done,
      \<lparr>cwd = ''/srv/app'',
       trace = [Chdir ''/srv/app'',
                Print ''Starting HTTP server on port 8000'',
                Print ''Serving files from: /srv/app'',
                Bind '''' 8000,
                Listen,
                Print ''Server running at http://localhost:8000/'',
                Print ''Open http://localhost:8000/index.html to view the application'',
                Print ''Open http://localhost:8000/test.html for simple test'',
                Print ''Open http://localhost:8000/debug.html for debugging'',
                Print ''Press Ctrl+C to stop the server'',
                Browser ''http://localhost:8000/index.html'',
                Response (get_request ''/index.html'' ''HTTP/1.1'')
                  (MyHTTPRequestHandler site ''/srv/app'' (get_request ''/index.html'' ''HTTP/1.1'')),
                Print (LF @ ''Server stopped.''),
                Close]\<rparr>)"
proof -
  have 1: "fault demo_env AtChdir = None" and 2: "\<forall>k \<in> {1..7}. fault demo_env (AtPrint k) = None"
    and 3: "fault demo_env AtBind = None"
    and 4: "inputs demo_env =
        map Request [get_request ''/index.html'' ''HTTP/1.1''] @ Raise KeyboardInterrupt # []"
    by (simp_all add: demo_fields no_fault_def)
  show ?thesis
    using interrupt_while_serving_stops_cleanly [OF 1 2 3 4]
    by (simp add: script_dir_demo startup_demo demo_fields)
qed


subsection \<open>The browser cannot be opened\<close>

text \<open>
  Claim C6. Whatever exception \<^verbatim>\<open>webbrowser.open\<close> raises, the run of \<^verbatim>\<open>main\<close> is the
  run in which the call returns normally: the same result, the same lines printed, the
  same socket calls and the same responses. The failure leaves no trace and does not
  reach the caller.
\<close>

theorem browser_failure_is_suppressed:
  "main (e\<lparr>fault := (fault e)(AtBrowser := Some x)\<rparr>) =
   main (e\<lparr>fault := (fault e)(AtBrowser := None)\<rparr>)"
  by (rule main_cong) simp_all

theorem browser_failure_is_suppressed_witness:
  "main (demo_env\<lparr>fault := (fault demo_env)(AtBrowser := Some (Exception ''webbrowser.Error''))\<rparr>) =
   main (demo_env\<lparr>fault := (fault demo_env)(AtBrowser := None)\<rparr>)"
  by (rule browser_failure_is_suppressed)


subsection \<open>The served directory\<close>




subsection \<open>The address of the socket\<close>

text \<open>
  Claim C8. In every run, \<^verbatim>\<open>main\<close> binds at most one socket, and when the start reaches
  the bind it binds exactly one, to host \<^verbatim>\<open>""\<close> (all interfaces) and port 8000. The
  command-line arguments and the environment variables do not change the run: \<^verbatim>\<open>main\<close>
  never reads them.
\<close>

theorem bind_address_is_fixed:
  "binds (trace (snd (main e))) =
     (if fault e AtChdir = None \<and> fault e (AtPrint 1) = None \<and> fault e (AtPrint 2) = None
      then [('''', 8000)] else []) \<and>
   main (e\<lparr>argv := a, environ := v\<rparr>) = main e"
proof
  show "main (e\<lparr>argv := a, environ := v\<rparr>) = main e"
    by (rule main_cong) simp_all
  show "binds (trace (snd (main e))) =
     (if fault e AtChdir = None \<and> fault e (AtPrint 1) = None \<and> fault e (AtPrint 2) = None
      then [('''', 8000)] else [])"
  proof (cases e rule: main_cases)
    case (f0 x)
    then show ?thesis
      by (simp add: startup_def)
  next
    case (f1 x)
    then show ?thesis
      by (simp add: startup_def)
  next
    case (f2 x)
    then show ?thesis
      by (simp add: startup_def)
  next
    case (f3 x)
    then show ?thesis
      by (simp add: startup_def)
  next
    case (f4 x)
    then show ?thesis
      by (simp add: startup_def)
  next
    case (f5 x)
    then show ?thesis
      by (simp add: startup_def)
  next
    case (f6 x)
    then show ?thesis
      by (simp add: startup_def)
  next
    case (f7 x)
    then show ?thesis
      by (simp add: startup_def)
  next
    case (f8 x)
    then show ?thesis
      by (simp add: startup_def)
  next
    case serving
    then show ?thesis
      using main_serving [of e]
      by (cases "stopped_by (inputs e)") (simp_all add: startup_def binds_app binds_answers)
  qed
qed

theorem bind_address_is_fixed_witness:
  "binds (trace (snd (main demo_env))) = [('''', 8000)] \<and>
   main (demo_env\<lparr>argv := [''simple-server.py'', ''--port'', ''9000''],
                  environ := [(''PORT'', ''9000''), (''HOST'', ''127.0.0.1'')]\<rparr>) = main demo_env"
  using bind_address_is_fixed [where e = demo_env
      and a = "[''simple-server.py'', ''--port'', ''9000'']"
      and v = "[(''PORT'', ''9000''), (''HOST'', ''127.0.0.1'')]"]
  by (simp add: demo_fields no_fault_def)


subsection \<open>Ctrl+C before serving\<close>

text \<open>
  Claim C9, as amended. An interrupt delivered during the change of the working directory,
  one of the seven prints of the banner, or the bind of the socket is not caught: \<^verbatim>\<open>main\<close>
  ends with the uncaught \<^verbatim>\<open>KeyboardInterrupt\<close> and never prints the shutdown message. An
  interrupt delivered during the call of the browser is caught by the bare \<^verbatim>\<open>except:\<close>
  and dropped: the run goes on exactly as if the browser call had returned, so it does not
  end with \<^verbatim>\<open>KeyboardInterrupt\<close>.
\<close>

theorem startup_interrupt_is_uncaught_except_in_browser_call:
  "(p \<in> {AtChdir, AtPrint 1, AtPrint 2, AtBind, AtPrint 3, AtPrint 4, AtPrint 5, AtPrint 6, AtPrint 7} \<longrightarrow>
      fst (main (e\<lparr>fault := no_fault(p := Some KeyboardInterrupt)\<rparr>)) = Raised KeyboardInterrupt \<and>
      Print (LF @ ''Server stopped.'') \<notin>
        set (trace (snd (main (e\<lparr>fault := no_fault(p := Some KeyboardInterrupt)\<rparr>))))) \<and>
   main (e\<lparr>fault := no_fault(AtBrowser := Some KeyboardInterrupt)\<rparr>) = main (e\<lparr>fault := no_fault\<rparr>) \<and>
   fst (main (e\<lparr>fault := no_fault(AtBrowser := Some KeyboardInterrupt)\<rparr>)) \<noteq> Raised KeyboardInterrupt"
proof (intro conjI impI)
  assume p: "p \<in> {AtChdir, AtPrint 1, AtPrint 2, AtBind, AtPrint 3, AtPrint 4, AtPrint 5, AtPrint 6, AtPrint 7}"
  define e' where "e' = e\<lparr>fault := no_fault(p := Some KeyboardInterrupt)\<rparr>"
  from p consider (p0) "p = AtChdir" | (p1) "p = AtPrint 1" | (p2) "p = AtPrint 2" | (p3) "p = AtBind" | (p4) "p = AtPrint 3" | (p5) "p = AtPrint 4" | (p6) "p = AtPrint 5" | (p7) "p = AtPrint 6" | (p8) "p = AtPrint 7"
    by auto
  then have "fst (main e') = Raised KeyboardInterrupt \<and>
      Print (LF @ ''Server stopped.'') \<notin> set (trace (snd (main e')))"
  proof cases
    case p0
    then show ?thesis
      using main_raises_at_chdir [of e' KeyboardInterrupt]
      by (simp add: e'_def no_fault_def startup_def LF_def)
  next
    case p1
    then show ?thesis
      using main_raises_at_print1 [of e' KeyboardInterrupt]
      by (simp add: e'_def no_fault_def startup_def LF_def)
  next
    case p2
    then show ?thesis
      using main_raises_at_print2 [of e' KeyboardInterrupt]
      by (simp add: e'_def no_fault_def startup_def LF_def)
  next
    case p3
    then show ?thesis
      using main_raises_at_bind [of e' KeyboardInterrupt]
      by (simp add: e'_def no_fault_def startup_def LF_def)
  next
    case p4
    then show ?thesis
      using main_raises_at_print3 [of e' KeyboardInterrupt]
      by (simp add: e'_def no_fault_def startup_def LF_def)
  next
    case p5
    then show ?thesis
      using main_raises_at_print4 [of e' KeyboardInterrupt]
      by (simp add: e'_def no_fault_def startup_def LF_def)
  next
    case p6
    then show ?thesis
      using main_raises_at_print5 [of e' KeyboardInterrupt]
      by (simp add: e'_def no_fault_def startup_def LF_def)
  next
    case p7
    then show ?thesis
      using main_raises_at_print6 [of e' KeyboardInterrupt]
      by (simp add: e'_def no_fault_def startup_def LF_def)
  next
    case p8
    then show ?thesis
      using main_raises_at_print7 [of e' KeyboardInterrupt]
      by (simp add: e'_def no_fault_def startup_def LF_def)
  qed
  then show "fst (main (e\<lparr>fault := no_fault(p := Some KeyboardInterrupt)\<rparr>)) = Raised KeyboardInterrupt"
    and "Print (LF @ ''Server stopped.'') \<notin>
        set (trace (snd (main (e\<lparr>fault := no_fault(p := Some KeyboardInterrupt)\<rparr>))))"
    by (simp_all add: e'_def)
next
  show eq: "main (e\<lparr>fault := no_fault(AtBrowser := Some KeyboardInterrupt)\<rparr>) = main (e\<lparr>fault := no_fault\<rparr>)"
    by (rule main_cong) simp_all
  have "fst (main (e\<lparr>fault := no_fault\<rparr>)) \<noteq> Raised KeyboardInterrupt"
    using main_serving [of "e\<lparr>fault := no_fault\<rparr>"]
    by (cases "stopped_by (inputs e)") (simp_all add: no_fault_def)
  then show "fst (main (e\<lparr>fault := no_fault(AtBrowser := Some KeyboardInterrupt)\<rparr>)) \<noteq> Raised KeyboardInterrupt"
    unfolding eq .
qed

text \<open>The theorem for an interrupt during the bind, and during the third print.\<close>

theorem startup_interrupt_is_uncaught_except_in_browser_call_witness:
  "AtBind \<in> {AtChdir, AtPrint 1, AtPrint 2, AtBind, AtPrint 3, AtPrint 4, AtPrint 5, AtPrint 6, AtPrint 7} \<and>
   fst (main (demo_env\<lparr>fault := no_fault(AtBind := Some KeyboardInterrupt)\<rparr>)) = Raised KeyboardInterrupt \<and>
   Print (LF @ ''Server stopped.'') \<notin>
     set (trace (snd (main (demo_env\<lparr>fault := no_fault(AtBind := Some KeyboardInterrupt)\<rparr>)))) \<and>
   AtPrint 3 \<in> {AtChdir, AtPrint 1, AtPrint 2, AtBind, AtPrint 3, AtPrint 4, AtPrint 5, AtPrint 6, AtPrint 7} \<and>
   fst (main (demo_env\<lparr>fault := no_fault(AtPrint 3 := Some KeyboardInterrupt)\<rparr>)) = Raised KeyboardInterrupt"
  using startup_interrupt_is_uncaught_except_in_browser_call [of AtBind demo_env]
    startup_interrupt_is_uncaught_except_in_browser_call [of "AtPrint 3" demo_env]
  by simp

text \<open>
  Claim C9 as stated fails for the browser call: with \<^verbatim>\<open>KeyboardInterrupt\<close> raised inside
  \<^verbatim>\<open>webbrowser.open\<close> and nothing arriving afterwards, the process is not terminated; it
  is inside \<^verbatim>\<open>serve_forever\<close>, listening.
\<close>

theorem interrupt_during_browser_call_is_swallowed:
  "main (demo_env\<lparr>fault := no_fault(AtBrowser := Some KeyboardInterrupt), inputs := []\<rparr>) =
     (Blocked,
      \<lparr>cwd = ''/srv/app'',
       trace = [Chdir ''/srv/app'',
                Print ''Starting HTTP server on port 8000'',
                Print ''Serving files from: /srv/app'',
                Bind '''' 8000,
                Listen,
                Print ''Server running at http://localhost:8000/'',
                Print ''Open http://localhost:8000/index.html to view the application'',
                Print ''Open http://localhost:8000/test.html for simple test'',
                Print ''Open http://localhost:8000/debug.html for debugging'',
                Print ''Press Ctrl+C to stop the server'',
                Browser ''http://localhost:8000/index.html'']\<rparr>)"
proof -
  define e where "e = demo_env\<lparr>fault := no_fault(AtBrowser := Some KeyboardInterrupt), inputs := []\<rparr>"
  have d: "script_dir e = ''/srv/app''"
    using script_dir_demo by (simp add: e_def script_dir_def)
  have i: "inputs e = []"
    by (simp add: e_def)
  have "main e = (Blocked, \<lparr>cwd = script_dir e, trace = startup e @ answers e\<rparr>)"
    using main_serving [of e] by (simp add: e_def no_fault_def)
  then show ?thesis
    unfolding e_def [symmetric] by (simp add: d i startup_def answers_def)
qed


subsection \<open>The browser is called after the bind\<close>

text \<open>
  Claim C10. In every run of \<^verbatim>\<open>main\<close>, a call of the browser comes only after the socket
  has been bound and listens; in every run in which the bind raises, the browser is never
  called.
\<close>

theorem browser_only_after_listen:
  "(\<forall>x u. fault e AtBind = Some x \<longrightarrow> Browser u \<notin> set (trace (snd (main e)))) \<and>
   browser_after_listen False (trace (snd (main e)))"
proof (cases e rule: main_cases)
  case (f0 x)
  then show ?thesis
    by (simp add: startup_def)
next
  case (f1 x)
  then show ?thesis
    by (simp add: startup_def)
next
  case (f2 x)
  then show ?thesis
    by (simp add: startup_def)
next
  case (f3 x)
  then show ?thesis
    by (simp add: startup_def)
next
  case (f4 x)
  then show ?thesis
    by (simp add: startup_def)
next
  case (f5 x)
  then show ?thesis
    by (simp add: startup_def)
next
  case (f6 x)
  then show ?thesis
    by (simp add: startup_def)
next
  case (f7 x)
  then show ?thesis
    by (simp add: startup_def)
next
  case (f8 x)
  then show ?thesis
    by (simp add: startup_def)
next
  case serving
  then show ?thesis
    using main_serving [of e]
    by (cases "stopped_by (inputs e)") (simp_all add: startup_def bal_append bal_answers)
qed

theorem browser_only_after_listen_witness:
  "fault (demo_env\<lparr>fault := no_fault(AtBind := Some (OSError ''[Errno 98] Address already in use''))\<rparr>)
     AtBind = Some (OSError ''[Errno 98] Address already in use'') \<and>
   Browser ''http://localhost:8000/index.html'' \<notin>
     set (trace (snd (main
       (demo_env\<lparr>fault := no_fault(AtBind := Some (OSError ''[Errno 98] Address already in use''))\<rparr>)))) \<and>
   browser_after_listen False (trace (snd (main demo_env)))"
  using browser_only_after_listen
      [of "demo_env\<lparr>fault := no_fault(AtBind := Some (OSError ''[Errno 98] Address already in use''))\<rparr>"]
    browser_only_after_listen [of demo_env]
  by simp

end
